theory Spec2Isabelle
  imports Main "HOL-Library.Word"
begin

unbundle bit_operations_syntax

section \<open>Python values, objects and the store\<close>

text \<open>
  The show engine of \<^verbatim>\<open>mpf/assets/show.py\<close> works on nested Python dicts and lists
  that are shared by reference and mutated in place. A value is a scalar or a reference
  into a store of mutable objects. Floating point numbers (step times, the clock) are
  kept abstract: they are values of a type \<open>'t\<close> of which only the operations the code
  uses are required, and no law of arithmetic is assumed about them.

  Equality of dict keys is equality of the values as written here; Python's
  identification of \<^verbatim>\<open>True\<close> with \<^verbatim>\<open>1\<close> and of an int with an equal float is not
  modelled.
\<close>

datatype reason =
    InvalidShowConfig
  | InvalidSection
  | UnsupportedShowVersion
  | TokenMismatch
  | InvalidStepNumber

datatype error =
    ValueError reason
  | TypeError
  | KeyError
  | IndexError
  | AttributeError
  | ZeroDivisionError
  | RecursionError
  | BadReference
  | ExternalError string

datatype 't val =
    VNone
  | VBool bool
  | VInt int
  | VFloat 't
  | VStr string
  | VRef nat

datatype 't obj =
    ODict "('t val \<times> 't val) list"
  | OList "'t val list"

type_synonym 't store = "'t obj list"

definition alloc :: "'t store \<Rightarrow> 't obj \<Rightarrow> 't val \<times> 't store" where
  "alloc h ob = (VRef (length h), h @ [ob])"

text \<open>A reference outside the store cannot arise in Python; the model reports it.\<close>

definition deref :: "'t store \<Rightarrow> nat \<Rightarrow> error + 't obj" where
  "deref h a = (if a < length h then Inr (h ! a) else Inl BadReference)"

fun dict_set :: "('k \<times> 'v) list \<Rightarrow> 'k \<Rightarrow> 'v \<Rightarrow> ('k \<times> 'v) list" where
  "dict_set [] k v = [(k, v)]"
| "dict_set ((k', v') # kvs) k v =
     (if k' = k then (k', v) # kvs else (k', v') # dict_set kvs k v)"

fun dict_del :: "('k \<times> 'v) list \<Rightarrow> 'k \<Rightarrow> ('k \<times> 'v) list" where
  "dict_del [] k = []"
| "dict_del ((k', v') # kvs) k = (if k' = k then kvs else (k', v') # dict_del kvs k)"

text \<open>Python list indexing: a negative index counts from the end.\<close>

definition norm_index :: "nat \<Rightarrow> int \<Rightarrow> nat option" where
  "norm_index n i =
     (let j = (if i < 0 then int n + i else i)
      in if 0 \<le> j \<and> j < int n then Some (nat j) else None)"

text \<open>\<^verbatim>\<open>bool\<close> is a subclass of \<^verbatim>\<open>int\<close>: both index a sequence.\<close>

fun index_of :: "'t val \<Rightarrow> int option" where
  "index_of (VInt i) = Some i"
| "index_of (VBool b) = Some (if b then 1 else 0)"
| "index_of _ = None"

text \<open>A dict or a list is unhashable and cannot be a dict key.\<close>

fun hashable :: "'t val \<Rightarrow> bool" where
  "hashable (VRef _) = False"
| "hashable _ = True"

text \<open>\<^verbatim>\<open>target[x]\<close>\<close>

definition py_getitem :: "'t store \<Rightarrow> 't val \<Rightarrow> 't val \<Rightarrow> error + 't val" where
  "py_getitem h target x =
     (case target of
        VRef a \<Rightarrow>
          (case deref h a of
             Inl e \<Rightarrow> Inl e
           | Inr (ODict kvs) \<Rightarrow>
               (if \<not> hashable x then Inl TypeError
                else (case map_of kvs x of None \<Rightarrow> Inl KeyError | Some v \<Rightarrow> Inr v))
           | Inr (OList xs) \<Rightarrow>
               (case index_of x of
                  None \<Rightarrow> Inl TypeError
                | Some i \<Rightarrow>
                    (case norm_index (length xs) i of
                       None \<Rightarrow> Inl IndexError
                     | Some j \<Rightarrow> Inr (xs ! j))))
      | VStr s \<Rightarrow>
          (case index_of x of
             None \<Rightarrow> Inl TypeError
           | Some i \<Rightarrow>
               (case norm_index (length s) i of
                  None \<Rightarrow> Inl IndexError
                | Some j \<Rightarrow> Inr (VStr [s ! j])))
      | _ \<Rightarrow> Inl TypeError)"

text \<open>\<^verbatim>\<open>target[x] = v\<close>\<close>

definition py_setitem :: "'t store \<Rightarrow> 't val \<Rightarrow> 't val \<Rightarrow> 't val \<Rightarrow> error + 't store" where
  "py_setitem h target x v =
     (case target of
        VRef a \<Rightarrow>
          (case deref h a of
             Inl e \<Rightarrow> Inl e
           | Inr (ODict kvs) \<Rightarrow>
               (if \<not> hashable x then Inl TypeError
                else Inr (h[a := ODict (dict_set kvs x v)]))
           | Inr (OList xs) \<Rightarrow>
               (case index_of x of
                  None \<Rightarrow> Inl TypeError
                | Some i \<Rightarrow>
                    (case norm_index (length xs) i of
                       None \<Rightarrow> Inl IndexError
                     | Some j \<Rightarrow> Inr (h[a := OList (xs[j := v])]))))
      | _ \<Rightarrow> Inl TypeError)"

text \<open>\<^verbatim>\<open>target.pop(x)\<close>: only dicts and lists have the method.\<close>

definition py_pop :: "'t store \<Rightarrow> 't val \<Rightarrow> 't val \<Rightarrow> error + ('t val \<times> 't store)" where
  "py_pop h target x =
     (case target of
        VRef a \<Rightarrow>
          (case deref h a of
             Inl e \<Rightarrow> Inl e
           | Inr (ODict kvs) \<Rightarrow>
               (if \<not> hashable x then Inl TypeError
                else (case map_of kvs x of
                        None \<Rightarrow> Inl KeyError
                      | Some v \<Rightarrow> Inr (v, h[a := ODict (dict_del kvs x)])))
           | Inr (OList xs) \<Rightarrow>
               (case index_of x of
                  None \<Rightarrow> Inl TypeError
                | Some i \<Rightarrow>
                    (case norm_index (length xs) i of
                       None \<Rightarrow> Inl IndexError
                     | Some j \<Rightarrow> Inr (xs ! j, h[a := OList (take j xs @ drop (Suc j) xs)]))))
      | _ \<Rightarrow> Inl AttributeError)"

text \<open>\<^verbatim>\<open>data.items()\<close>: only a dict has the method.\<close>

definition py_items :: "'t store \<Rightarrow> 't val \<Rightarrow> error + ('t val \<times> 't val) list" where
  "py_items h d =
     (case d of
        VRef a \<Rightarrow>
          (case deref h a of
             Inl e \<Rightarrow> Inl e
           | Inr (ODict kvs) \<Rightarrow> Inr kvs
           | Inr (OList xs) \<Rightarrow> Inl AttributeError)
      | _ \<Rightarrow> Inl AttributeError)"

fun starts_with :: "string \<Rightarrow> string \<Rightarrow> bool" where
  "starts_with [] s = True"
| "starts_with (c # cs) [] = False"
| "starts_with (c # cs) (d # ds) = (c = d \<and> starts_with cs ds)"

fun is_substring :: "string \<Rightarrow> string \<Rightarrow> bool" where
  "is_substring p [] = (p = [])"
| "is_substring p (d # ds) = (starts_with p (d # ds) \<or> is_substring p ds)"

text \<open>
  \<^verbatim>\<open>name in container\<close> for a string \<^verbatim>\<open>name\<close>: a key of a dict, an element of a
  list, a substring of a string; any other right operand is not iterable.
\<close>

definition py_contains_str :: "'t store \<Rightarrow> string \<Rightarrow> 't val \<Rightarrow> error + bool" where
  "py_contains_str h name c =
     (case c of
        VRef a \<Rightarrow>
          (case deref h a of
             Inl e \<Rightarrow> Inl e
           | Inr (ODict kvs) \<Rightarrow> Inr (VStr name \<in> set (map fst kvs))
           | Inr (OList xs) \<Rightarrow> Inr (VStr name \<in> set xs))
      | VStr s \<Rightarrow> Inr (is_substring name s)
      | _ \<Rightarrow> Inl TypeError)"

text \<open>Truth value of a Python object: \<^verbatim>\<open>not data\<close> is its negation.\<close>

definition truthy :: "('t::zero) store \<Rightarrow> 't val \<Rightarrow> error + bool" where
  "truthy h v =
     (case v of
        VNone \<Rightarrow> Inr False
      | VBool b \<Rightarrow> Inr b
      | VInt i \<Rightarrow> Inr (i \<noteq> 0)
      | VFloat x \<Rightarrow> Inr (x \<noteq> 0)
      | VStr s \<Rightarrow> Inr (s \<noteq> [])
      | VRef a \<Rightarrow>
          (case deref h a of
             Inl e \<Rightarrow> Inl e
           | Inr (ODict kvs) \<Rightarrow> Inr (kvs \<noteq> [])
           | Inr (OList xs) \<Rightarrow> Inr (xs \<noteq> [])))"


text \<open>\<^verbatim>\<open>target.append(v)\<close>\<close>

definition py_append :: "'t store \<Rightarrow> 't val \<Rightarrow> 't val \<Rightarrow> error + 't store" where
  "py_append h target v =
     (case target of
        VRef a \<Rightarrow>
          (case deref h a of
             Inl e \<Rightarrow> Inl e
           | Inr (ODict kvs) \<Rightarrow> Inl AttributeError
           | Inr (OList xs) \<Rightarrow> Inr (h[a := OList (xs @ [v])]))
      | _ \<Rightarrow> Inl AttributeError)"

section \<open>The show asset\<close>

text \<open>
  The collaborators of \<^verbatim>\<open>show.py\<close> that are not part of it are parameters of the model:
  the registry \<^verbatim>\<open>ConfigPlayer.show_players\<close> (its keys, and each player's
  \<^verbatim>\<open>validate_show_config\<close>, which returns the items of its result dict and may allocate),
  \<^verbatim>\<open>Util.string_to_secs\<close>, the show file loader with its version probe, the conversion
  of an int to a float, and the interpreter's recursion limit. Log output is not modelled.
\<close>

record 't env =
  show_players :: "string list"
  validate_show_config ::
    "string \<Rightarrow> 't store \<Rightarrow> 't val \<Rightarrow> 't val \<Rightarrow> error + (('t val \<times> 't val) list \<times> 't store)"
  string_to_secs :: "'t store \<Rightarrow> 't val \<Rightarrow> error + 't"
  get_show_file_version :: "string \<Rightarrow> int"
  show_version :: int
  file_load :: "string \<Rightarrow> 't store \<Rightarrow> error + ('t val \<times> 't store)"
  float_of_int :: "int \<Rightarrow> 't"
  recursion_limit :: nat

text \<open>
  A completion callback is \<^verbatim>\<open>None\<close>, a callable (identified by a number), or some
  other object that is not callable.
\<close>

datatype callback = NoCallback | Callable nat | NotCallable

text \<open>The keyword arguments of \<^verbatim>\<open>Show.play\<close>; these are also the autoplay settings.\<close>

record 't play_args =
  arg_priority :: int
  arg_hold :: "bool option"
  arg_speed :: 't
  arg_start_step :: int
  arg_callback :: callback
  arg_loops :: int
  arg_sync_ms :: int
  arg_reset :: bool
  arg_mode :: "nat option"
  arg_manual_advance :: bool
  arg_key :: "string option"
  arg_show_tokens :: "(string \<times> 't val) list"

definition default_args :: "('t::one) play_args" where
  "default_args =
     \<lparr> arg_priority = 0, arg_hold = None, arg_speed = 1, arg_start_step = 1,
       arg_callback = NoCallback, arg_loops = - 1, arg_sync_ms = 0, arg_reset = True,
       arg_mode = None, arg_manual_advance = False, arg_key = None,
       arg_show_tokens = [] \<rparr>"

text \<open>
  Calls into collaborators (the show controller, the output players, the asset loader,
  the completion callback) are recorded in a log, in call order.
\<close>

datatype 't event =
    NotifyShowStarting nat
  | NotifyShowStopping nat
  | ShowPlayCallback string "'t val" "nat option" nat int bool "(string \<times> 't val) list"
  | PlayerClear string nat int
  | CallbackFired nat
  | LoadRequested int

record 't Show =
  show_file :: "string option"
  loaded :: bool
  tokens :: "string set"
  token_values :: "(string \<times> 't val list list) list"
  token_keys :: "(string \<times> 't val list list) list"
  running :: "nat set"
  total_steps :: "nat option"
  show_steps :: "'t val"
  autoplay_settings :: "'t play_args"

text \<open>
  The machine: the object store, the clock (\<^verbatim>\<open>get_time\<close>, and the pending
  \<^verbatim>\<open>schedule_once\<close> timers of each running show's \<^verbatim>\<open>_run_next_step\<close> with their
  delays), the log of calls to collaborators, and the next fresh instance identity.
\<close>

record 't machine =
  heap :: "'t store"
  clock_time :: 't
  scheduled :: "(nat \<times> 't) list"
  events :: "'t event list"
  next_rid :: nat

subsection \<open>Tokens\<close>

text \<open>
  \<^verbatim>\<open>token_finder = re.compile('(?<=\()(.*?)(?=\))')\<close>; \<^verbatim>\<open>findall(data)[0]\<close> is the
  text between the first opening parenthesis that is followed, before any line break, by a
  closing one, and that closing parenthesis.
\<close>

fun upto_close :: "string \<Rightarrow> string option" where
  "upto_close [] = None"
| "upto_close (c # cs) =
     (if c = CHR '')'' then Some []
      else if c = CHR 0x0A then None
      else map_option ((#) c) (upto_close cs))"

fun token_finder :: "string \<Rightarrow> string option" where
  "token_finder [] = None"
| "token_finder (c # cs) =
     (if c = CHR ''(''
      then (case upto_close cs of Some t \<Rightarrow> Some t | None \<Rightarrow> token_finder cs)
      else token_finder cs)"

datatype token_type = TKey | TValue

definition append_path ::
  "(string \<times> 't val list list) list \<Rightarrow> string \<Rightarrow> 't val list \<Rightarrow> (string \<times> 't val list list) list" where
  "append_path tbl token path =
     (case map_of tbl token of
        None \<Rightarrow> dict_set tbl token [path]
      | Some ps \<Rightarrow> dict_set tbl token (ps @ [path]))"

definition add_token :: "'t Show \<Rightarrow> string \<Rightarrow> 't val list \<Rightarrow> token_type \<Rightarrow> 't Show" where
  "add_token s token path ty =
     (let s1 = s\<lparr>tokens := insert token (tokens s)\<rparr>
      in case ty of
           TKey \<Rightarrow> s1\<lparr>token_keys := append_path (token_keys s1) token path\<rparr>
         | TValue \<Rightarrow> s1\<lparr>token_values := append_path (token_values s1) token path\<rparr>)"

text \<open>\<^verbatim>\<open>findall\<close> raises \<^verbatim>\<open>TypeError\<close> on anything but a string, which is ignored.\<close>

definition check_token :: "'t Show \<Rightarrow> 't val list \<Rightarrow> 't val \<Rightarrow> token_type \<Rightarrow> 't Show" where
  "check_token s path data ty =
     (case data of
        VStr str \<Rightarrow>
          (case token_finder str of None \<Rightarrow> s | Some token \<Rightarrow> add_token s token path ty)
      | _ \<Rightarrow> s)"


text \<open>
  \<^verbatim>\<open>_walk_show\<close> recurses through the nested data; its depth is bounded by the
  interpreter's recursion limit, the first argument. The two loops of its body take the
  recursive call as an argument.
\<close>

fun walk_dict ::
  "('t Show \<Rightarrow> 't val \<Rightarrow> 't val list \<Rightarrow> int option \<Rightarrow> (error + unit) \<times> 't Show) \<Rightarrow>
   't Show \<Rightarrow> 't val list \<Rightarrow> ('t val \<times> 't val) list \<Rightarrow> (error + unit) \<times> 't Show" where
  "walk_dict rec s path [] = (Inr (), s)"
| "walk_dict rec s path ((k, v) # kvs) =
     (case rec (check_token s path k TKey) v (path @ [k]) None of
        (Inl e, s') \<Rightarrow> (Inl e, s')
      | (Inr _, s') \<Rightarrow> walk_dict rec s' path kvs)"

fun walk_list ::
  "('t Show \<Rightarrow> 't val \<Rightarrow> 't val list \<Rightarrow> int option \<Rightarrow> (error + unit) \<times> 't Show) \<Rightarrow>
   't Show \<Rightarrow> 't val list \<Rightarrow> int option \<Rightarrow> 't val list \<Rightarrow> (error + unit) \<times> 't Show" where
  "walk_list rec s path list_index [] = (Inr (), s)"
| "walk_list rec s path list_index (i # rest) =
     (let s1 = check_token s path i TKey;
          idx = (case list_index of None \<Rightarrow> 0 | Some n \<Rightarrow> n + 1)
      in case rec s1 i (path @ [VInt idx]) (Some idx) of
           (Inl e, s') \<Rightarrow> (Inl e, s')
         | (Inr _, s') \<Rightarrow> walk_list rec s' path (Some idx) rest)"

fun walk_show ::
  "nat \<Rightarrow> 't store \<Rightarrow> 't Show \<Rightarrow> 't val \<Rightarrow> 't val list \<Rightarrow> int option \<Rightarrow>
   (error + unit) \<times> 't Show" where
  "walk_show 0 h s data path list_index = (Inl RecursionError, s)"
| "walk_show (Suc n) h s data path list_index =
     (case data of
        VRef a \<Rightarrow>
          (case deref h a of
             Inl e \<Rightarrow> (Inl e, s)
           | Inr (ODict kvs) \<Rightarrow> walk_dict (walk_show n h) s path kvs
           | Inr (OList xs) \<Rightarrow> walk_list (walk_show n h) s path list_index xs)
      | _ \<Rightarrow> (Inr (), check_token s path data TValue))"

definition get_tokens :: "'t env \<Rightarrow> 't store \<Rightarrow> 't Show \<Rightarrow> (error + unit) \<times> 't Show" where
  "get_tokens env h s = walk_show (recursion_limit env) h s (show_steps s) [] None"

subsection \<open>Loading\<close>

text \<open>
  \<^verbatim>\<open>str(step['time'])[0] == '+'\<close>: the text of a number, of \<^verbatim>\<open>None\<close>, of a bool, of a
  list or of a dict is not empty and does not start with a plus sign.
\<close>

fun starts_plus :: "'t val \<Rightarrow> error + bool" where
  "starts_plus (VStr []) = Inl IndexError"
| "starts_plus (VStr (c # cs)) = Inr (c = CHR ''+'')"
| "starts_plus _ = Inr False"

definition dict_update :: "('k \<times> 'v) list \<Rightarrow> ('k \<times> 'v) list \<Rightarrow> ('k \<times> 'v) list" where
  "dict_update d other = fold (\<lambda>(k, v) acc. dict_set acc k v) other d"

fun validate_devices ::
  "'t env \<Rightarrow> string \<Rightarrow> 't store \<Rightarrow> ('t val \<times> 't val) list \<Rightarrow> ('t val \<times> 't val) list \<Rightarrow>
   (error + ('t val \<times> 't val) list) \<times> 't store" where
  "validate_devices env key h validated_config [] = (Inr validated_config, h)"
| "validate_devices env key h validated_config ((device, settings) # rest) =
     (case validate_show_config env key h device settings of
        Inl e \<Rightarrow> (Inl e, h)
      | Inr (res, h') \<Rightarrow> validate_devices env key h' (dict_update validated_config res) rest)"

text \<open>
  \<^verbatim>\<open>if not isinstance(value, dict): value = {value: dict()}\<close>, then \<^verbatim>\<open>value.items()\<close>.
  A list cannot be the key of the new dict. The wrapping dict itself is never referenced
  again and is not allocated.
\<close>

definition section_items ::
  "'t store \<Rightarrow> 't val \<Rightarrow> (error + ('t val \<times> 't val) list) \<times> 't store" where
  "section_items h v =
     (case v of
        VRef a \<Rightarrow>
          (case deref h a of
             Inl e \<Rightarrow> (Inl e, h)
           | Inr (ODict kvs) \<Rightarrow> (Inr kvs, h)
           | Inr (OList xs) \<Rightarrow> (Inl TypeError, h))
      | _ \<Rightarrow> (let (r, h1) = alloc h (ODict []) in (Inr [(v, r)], h1)))"

definition registered :: "'t env \<Rightarrow> 't val \<Rightarrow> string option" where
  "registered env k =
     (case k of
        VStr name \<Rightarrow> (if name \<in> set (show_players env) then Some name else None)
      | _ \<Rightarrow> None)"

text \<open>The loop over \<^verbatim>\<open>step.items()\<close>, filling \<^verbatim>\<open>actions\<close>.\<close>

fun load_sections ::
  "'t env \<Rightarrow> 't store \<Rightarrow> ('t val \<times> 't val) list \<Rightarrow> ('t val \<times> 't val) list \<Rightarrow>
   (error + ('t val \<times> 't val) list) \<times> 't store" where
  "load_sections env h actions [] = (Inr actions, h)"
| "load_sections env h actions ((k, v) # rest) =
     (case registered env k of
        Some name \<Rightarrow>
          (case section_items h v of
             (Inl e, h1) \<Rightarrow> (Inl e, h1)
           | (Inr items, h1) \<Rightarrow>
               (case validate_devices env name h1 [] items of
                  (Inl e, h2) \<Rightarrow> (Inl e, h2)
                | (Inr validated_config, h2) \<Rightarrow>
                    (let (r, h3) = alloc h2 (ODict validated_config)
                     in load_sections env h3 (dict_set actions k r) rest)))
      | None \<Rightarrow>
          (if k \<noteq> VStr ''time'' then (Inl (ValueError InvalidSection), h)
           else load_sections env h actions rest))"

text \<open>
  One round of the loop over the steps. \<open>lst\<close> is \<^verbatim>\<open>self.show_steps\<close>. The result is
  the new \<^verbatim>\<open>total_step_time\<close>, or \<open>None\<close> for the \<^verbatim>\<open>return False\<close> of a step that is
  out of chronological order. The int \<^verbatim>\<open>0\<close> that \<^verbatim>\<open>total_step_time\<close> starts from
  is the zero of \<open>'t\<close>.
\<close>

definition load_step ::
  "('t::{zero,plus,minus,ord}) env \<Rightarrow> 't val \<Rightarrow> 't store \<Rightarrow> 't \<Rightarrow> nat \<Rightarrow> 't val \<Rightarrow>
   (error + 't option) \<times> 't store" where
  "load_step env lst h total_step_time step_num step =
     (case py_contains_str h ''time'' step of
        Inl e \<Rightarrow> (Inl e, h)
      | Inr has_time \<Rightarrow>
     (case (if has_time then Inr h
            else py_setitem h step (VStr ''time'')
                   (if step_num \<noteq> 0 then VStr ''+1'' else VInt 0)) of
        Inl e \<Rightarrow> (Inl e, h)
      | Inr h1 \<Rightarrow>
     (case py_getitem h1 step (VStr ''time'') of
        Inl e \<Rightarrow> (Inl e, h1)
      | Inr tv \<Rightarrow>
     (case string_to_secs env h1 tv of
        Inl e \<Rightarrow> (Inl e, h1)
      | Inr step_time \<Rightarrow>
     (case (if step_num = 0 \<and> 0 < step_time
            then (let (d, h') = alloc h1 (ODict [(VStr ''time'', VInt 0)])
                  in py_append h' lst d)
            else Inr h1) of
        Inl e \<Rightarrow> (Inl e, h1)
      | Inr h2 \<Rightarrow>
     (case py_getitem h2 step (VStr ''time'') of
        Inl e \<Rightarrow> (Inl e, h2)
      | Inr tv2 \<Rightarrow>
     (case starts_plus tv2 of
        Inl e \<Rightarrow> (Inl e, h2)
      | Inr relative \<Rightarrow>
          if \<not> relative \<and> step_time < total_step_time then (Inr None, h2)
          else
            (let t = (if relative then step_time else step_time - total_step_time)
             in case py_items h2 step of
                  Inl e \<Rightarrow> (Inl e, h2)
                | Inr items \<Rightarrow>
                    (case load_sections env h2 [(VStr ''time'', VFloat t)] items of
                       (Inl e, h3) \<Rightarrow> (Inl e, h3)
                     | (Inr actions, h3) \<Rightarrow>
                         (let (a, h4) = alloc h3 (ODict actions)
                          in case py_append h4 lst a of
                               Inl e \<Rightarrow> (Inl e, h4)
                             | Inr h5 \<Rightarrow> (Inr (Some (total_step_time + t)), h5)))))))))))"

text \<open>
  The loop \<^verbatim>\<open>for step_num, step in enumerate(data)\<close>: the last \<^verbatim>\<open>total_step_time\<close>
  when it runs to its end, \<open>None\<close> when a step returned \<^verbatim>\<open>False\<close>.
\<close>

fun load_steps ::
  "('t::{zero,plus,minus,ord}) env \<Rightarrow> 't val \<Rightarrow> 't store \<Rightarrow> 't \<Rightarrow> nat \<Rightarrow> 't val list \<Rightarrow>
   (error + 't option) \<times> 't store" where
  "load_steps env lst h total_step_time step_num [] = (Inr (Some total_step_time), h)"
| "load_steps env lst h total_step_time step_num (step # rest) =
     (case load_step env lst h total_step_time step_num step of
        (Inl e, h') \<Rightarrow> (Inl e, h')
      | (Inr None, h') \<Rightarrow> (Inr None, h')
      | (Inr (Some t), h') \<Rightarrow> load_steps env lst h' t (Suc step_num) rest)"


text \<open>\<^verbatim>\<open>len(v)\<close>\<close>

definition py_len :: "'t store \<Rightarrow> 't val \<Rightarrow> error + nat" where
  "py_len h v =
     (case v of
        VRef a \<Rightarrow>
          (case deref h a of
             Inl e \<Rightarrow> Inl e
           | Inr (ODict kvs) \<Rightarrow> Inr (length kvs)
           | Inr (OList xs) \<Rightarrow> Inr (length xs))
      | VStr s \<Rightarrow> Inr (length s)
      | _ \<Rightarrow> Inl TypeError)"

definition load_show_from_disk ::
  "'t env \<Rightarrow> 't store \<Rightarrow> string \<Rightarrow> (error + 't val) \<times> 't store" where
  "load_show_from_disk env h f =
     (if get_show_file_version env f \<noteq> show_version env
      then (Inl (ValueError UnsupportedShowVersion), h)
      else (case file_load env f h of
              Inl e \<Rightarrow> (Inl e, h)
            | Inr (d, h') \<Rightarrow> (Inr d, h')))"

text \<open>
  \<^verbatim>\<open>if isinstance(data, dict): data = list(data)\<close>, and the \<^verbatim>\<open>ValueError\<close> for a root
  that is neither a dict nor a list. \<^verbatim>\<open>list(data)\<close> of a dict is the list of its keys.
  The result is the sequence the loop then enumerates.
\<close>

definition root_steps :: "'t store \<Rightarrow> 't val \<Rightarrow> (error + 't val list) \<times> 't store" where
  "root_steps h data =
     (case data of
        VRef a \<Rightarrow>
          (case deref h a of
             Inl e \<Rightarrow> (Inl e, h)
           | Inr (ODict kvs) \<Rightarrow>
               (let (r, h') = alloc h (OList (map fst kvs)) in (Inr (map fst kvs), h'))
           | Inr (OList xs) \<Rightarrow> (Inr xs, h))
      | _ \<Rightarrow> (Inl (ValueError InvalidShowConfig), h))"

text \<open>
  \<^verbatim>\<open>Show.do_load_show\<close>. It returns \<^verbatim>\<open>None\<close> at its end and \<^verbatim>\<open>False\<close> for a show
  whose step times are out of order; whatever it did to the show and to the store before
  an exception or an early return stays done.
\<close>

definition do_load_show ::
  "('t::{zero,plus,minus,ord}) env \<Rightarrow> 't machine \<Rightarrow> 't Show \<Rightarrow> 't val \<Rightarrow>
   (error + 't val) \<times> 't machine \<times> 't Show" where
  "do_load_show env m s data =
     (let (lst, h0) = alloc (heap m) (OList []);
          s0 = s\<lparr>show_steps := lst\<rparr>
      in case truthy h0 data of
           Inl e \<Rightarrow> (Inl e, m\<lparr>heap := h0\<rparr>, s0)
         | Inr nonempty \<Rightarrow>
      (case (case show_file s0 of
               Some f \<Rightarrow>
                 (if \<not> nonempty \<and> f \<noteq> [] then load_show_from_disk env h0 f
                  else (Inr data, h0))
             | None \<Rightarrow> (Inr data, h0)) of
         (Inl e, h1) \<Rightarrow> (Inl e, m\<lparr>heap := h1\<rparr>, s0)
       | (Inr data1, h1) \<Rightarrow>
      (case root_steps h1 data1 of
         (Inl e, h2) \<Rightarrow> (Inl e, m\<lparr>heap := h2\<rparr>, s0)
       | (Inr steps, h2) \<Rightarrow>
      (case load_steps env lst h2 0 0 steps of
         (Inl e, h3) \<Rightarrow> (Inl e, m\<lparr>heap := h3\<rparr>, s0)
       | (Inr None, h3) \<Rightarrow> (Inr (VBool False), m\<lparr>heap := h3\<rparr>, s0)
       | (Inr (Some t), h3) \<Rightarrow>
      (case py_len h3 lst of
         Inl e \<Rightarrow> (Inl e, m\<lparr>heap := h3\<rparr>, s0)
       | Inr n \<Rightarrow>
      (case get_tokens env h3 (s0\<lparr>total_steps := Some n\<rparr>) of
         (Inl e, s1) \<Rightarrow> (Inl e, m\<lparr>heap := h3\<rparr>, s1)
       | (Inr _, s1) \<Rightarrow> (Inr VNone, m\<lparr>heap := h3\<rparr>, s1)))))))"

text \<open>
  \<^verbatim>\<open>Show.__init__\<close>: the fields of a new show, and the load of \<^verbatim>\<open>data\<close> when it is
  given and not empty; \<^verbatim>\<open>loaded\<close> is set whatever \<^verbatim>\<open>do_load_show\<close> returned.
\<close>

definition new_show :: "string option \<Rightarrow> ('t::one) Show" where
  "new_show f =
     \<lparr> show_file = f, loaded = False, tokens = {}, token_values = [], token_keys = [],
       running = {}, total_steps = None, show_steps = VNone,
       autoplay_settings = default_args \<rparr>"

definition init_show ::
  "('t::{zero,one,plus,minus,ord}) env \<Rightarrow> 't machine \<Rightarrow> string option \<Rightarrow> 't val \<Rightarrow>
   (error + unit) \<times> 't machine \<times> 't Show" where
  "init_show env m f data =
     (case truthy (heap m) data of
        Inl e \<Rightarrow> (Inl e, m, new_show f)
      | Inr False \<Rightarrow> (Inr (), m, new_show f)
      | Inr True \<Rightarrow>
          (case do_load_show env m (new_show f) data of
             (Inl e, m', s') \<Rightarrow> (Inl e, m', s')
           | (Inr _, m', s') \<Rightarrow> (Inr (), m', s'\<lparr>loaded := True\<rparr>)))"

subsection \<open>Copying the steps\<close>

text \<open>
  \<^verbatim>\<open>Show.get_show_steps\<close> builds a new dict for every dict and a new list for every list
  it meets, and returns anything else as it is. Its depth is bounded by the recursion
  limit. Called with the default argument it starts from \<^verbatim>\<open>self.show_steps\<close>.
\<close>

fun copy_items ::
  "('t store \<Rightarrow> 't val \<Rightarrow> (error + 't val) \<times> 't store) \<Rightarrow> 't store \<Rightarrow> 't val \<Rightarrow>
   ('t val \<times> 't val) list \<Rightarrow> (error + unit) \<times> 't store" where
  "copy_items rec h new_dict [] = (Inr (), h)"
| "copy_items rec h new_dict ((k, v) # kvs) =
     (case rec h v of
        (Inl e, h1) \<Rightarrow> (Inl e, h1)
      | (Inr c, h1) \<Rightarrow>
          (case py_setitem h1 new_dict k c of
             Inl e \<Rightarrow> (Inl e, h1)
           | Inr h2 \<Rightarrow> copy_items rec h2 new_dict kvs))"

fun copy_elems ::
  "('t store \<Rightarrow> 't val \<Rightarrow> (error + 't val) \<times> 't store) \<Rightarrow> 't store \<Rightarrow> 't val \<Rightarrow>
   't val list \<Rightarrow> (error + unit) \<times> 't store" where
  "copy_elems rec h new_list [] = (Inr (), h)"
| "copy_elems rec h new_list (i # rest) =
     (case rec h i of
        (Inl e, h1) \<Rightarrow> (Inl e, h1)
      | (Inr c, h1) \<Rightarrow>
          (case py_append h1 new_list c of
             Inl e \<Rightarrow> (Inl e, h1)
           | Inr h2 \<Rightarrow> copy_elems rec h2 new_list rest))"

definition dummy_default :: "'t val" where
  "dummy_default = VStr ''dummy_default!#$''"

fun get_show_steps ::
  "nat \<Rightarrow> 't Show \<Rightarrow> 't store \<Rightarrow> 't val \<Rightarrow> (error + 't val) \<times> 't store" where
  "get_show_steps 0 s h data = (Inl RecursionError, h)"
| "get_show_steps (Suc n) s h data =
     (case (if data = dummy_default then show_steps s else data) of
        VRef a \<Rightarrow>
          (case deref h a of
             Inl e \<Rightarrow> (Inl e, h)
           | Inr (ODict kvs) \<Rightarrow>
               (let (new_dict, h1) = alloc h (ODict [])
                in case copy_items (get_show_steps n s) h1 new_dict kvs of
                     (Inl e, h2) \<Rightarrow> (Inl e, h2)
                   | (Inr _, h2) \<Rightarrow> (Inr new_dict, h2))
           | Inr (OList xs) \<Rightarrow>
               (let (new_list, h1) = alloc h (OList [])
                in case copy_elems (get_show_steps n s) h1 new_list xs of
                     (Inl e, h2) \<Rightarrow> (Inl e, h2)
                   | (Inr _, h2) \<Rightarrow> (Inr new_list, h2)))
      | d \<Rightarrow> (Inr d, h))"


section \<open>The running show\<close>

text \<open>
  A \<^verbatim>\<open>RunningShow\<close> instance. \<open>rid\<close> is its identity: the show's \<^verbatim>\<open>running\<close> set
  and the clock's timers refer to the instance by it.
\<close>

record 't RunningShow =
  rid :: nat
  rs_show_steps :: "'t val"
  priority :: int
  hold :: bool
  speed :: 't
  callback :: callback
  loops :: int
  reset :: bool
  mode :: "nat option"
  manual_advance :: bool
  key :: "string option"
  show_tokens :: "(string \<times> 't val) list"
  stopped :: bool
  rs_total_steps :: nat
  next_step_index :: int
  next_step_time :: 't

subsection \<open>Token replacement\<close>

text \<open>\<^verbatim>\<open>for x in path: target = target[x]\<close>\<close>

fun walk_path :: "'t store \<Rightarrow> 't val \<Rightarrow> 't val list \<Rightarrow> error + 't val" where
  "walk_path h target [] = Inr target"
| "walk_path h target (x # xs) =
     (case py_getitem h target x of
        Inl e \<Rightarrow> Inl e
      | Inr t \<Rightarrow> walk_path h t xs)"

text \<open>
  The same walk with \<^verbatim>\<open>if x in keys_replaced: x = keys_replaced[x]\<close> before each
  step; the membership test hashes \<^verbatim>\<open>x\<close>.
\<close>

fun walk_path_renamed ::
  "('t val \<times> 't val) list \<Rightarrow> 't store \<Rightarrow> 't val \<Rightarrow> 't val list \<Rightarrow> error + 't val" where
  "walk_path_renamed keys_replaced h target [] = Inr target"
| "walk_path_renamed keys_replaced h target (x # xs) =
     (if \<not> hashable x then Inl TypeError
      else (case py_getitem h target
                   (case map_of keys_replaced x of Some y \<Rightarrow> y | None \<Rightarrow> x) of
              Inl e \<Rightarrow> Inl e
            | Inr t \<Rightarrow> walk_path_renamed keys_replaced h t xs))"

text \<open>The loop over the value paths of one token.\<close>

fun replace_value_paths ::
  "'t store \<Rightarrow> 't val \<Rightarrow> 't val \<Rightarrow> 't val list list \<Rightarrow> (error + unit) \<times> 't store" where
  "replace_value_paths h root replacement [] = (Inr (), h)"
| "replace_value_paths h root replacement (token_path # rest) =
     (case walk_path h root (butlast token_path) of
        Inl e \<Rightarrow> (Inl e, h)
      | Inr target \<Rightarrow>
          (if token_path = [] then (Inl IndexError, h)
           else (case py_setitem h target (last token_path) replacement of
                   Inl e \<Rightarrow> (Inl e, h)
                 | Inr h1 \<Rightarrow> replace_value_paths h1 root replacement rest)))"

text \<open>The first loop over the bindings.\<close>

fun replace_values ::
  "'t Show \<Rightarrow> 't store \<Rightarrow> 't val \<Rightarrow> (string \<times> 't val) list \<Rightarrow> (error + unit) \<times> 't store" where
  "replace_values s h root [] = (Inr (), h)"
| "replace_values s h root ((token, replacement) # rest) =
     (case map_of (token_values s) token of
        None \<Rightarrow> replace_values s h root rest
      | Some paths \<Rightarrow>
          (case replace_value_paths h root replacement paths of
             (Inl e, h1) \<Rightarrow> (Inl e, h1)
           | (Inr _, h1) \<Rightarrow> replace_values s h1 root rest))"

text \<open>
  The loop over the key paths of one token. \<^verbatim>\<open>target[replacement] = target.pop(key_name)\<close>
  pops first and stores second.
\<close>

fun replace_key_paths ::
  "'t store \<Rightarrow> 't val \<Rightarrow> ('t val \<times> 't val) list \<Rightarrow> 't val \<Rightarrow> 't val \<Rightarrow> 't val list list \<Rightarrow>
   (error + ('t val \<times> 't val) list) \<times> 't store" where
  "replace_key_paths h root keys_replaced key_name replacement [] = (Inr keys_replaced, h)"
| "replace_key_paths h root keys_replaced key_name replacement (token_path # rest) =
     (case walk_path_renamed keys_replaced h root token_path of
        Inl e \<Rightarrow> (Inl e, h)
      | Inr target \<Rightarrow>
          (case py_pop h target key_name of
             Inl e \<Rightarrow> (Inl e, h)
           | Inr (v, h1) \<Rightarrow>
               (case py_setitem h1 target replacement v of
                  Inl e \<Rightarrow> (Inl e, h1)
                | Inr h2 \<Rightarrow>
                    replace_key_paths h2 root (dict_set keys_replaced key_name replacement)
                      key_name replacement rest)))"

text \<open>The second loop over the bindings.\<close>

fun replace_keys ::
  "'t Show \<Rightarrow> 't store \<Rightarrow> 't val \<Rightarrow> ('t val \<times> 't val) list \<Rightarrow> (string \<times> 't val) list \<Rightarrow>
   (error + unit) \<times> 't store" where
  "replace_keys s h root keys_replaced [] = (Inr (), h)"
| "replace_keys s h root keys_replaced ((token, replacement) # rest) =
     (case map_of (token_keys s) token of
        None \<Rightarrow> replace_keys s h root keys_replaced rest
      | Some paths \<Rightarrow>
          (case replace_key_paths h root keys_replaced
                  (VStr (''('' @ token @ '')'')) replacement paths of
             (Inl e, h1) \<Rightarrow> (Inl e, h1)
           | (Inr kr, h1) \<Rightarrow> replace_keys s h1 root kr rest))"

text \<open>\<^verbatim>\<open>RunningShow._replace_tokens\<close>; \<open>root\<close> is the instance's \<^verbatim>\<open>show_steps\<close>.\<close>

definition replace_tokens ::
  "'t Show \<Rightarrow> 't store \<Rightarrow> 't val \<Rightarrow> (string \<times> 't val) list \<Rightarrow> (error + unit) \<times> 't store" where
  "replace_tokens s h root kwargs =
     (case replace_values s h root kwargs of
        (Inl e, h1) \<Rightarrow> (Inl e, h1)
      | (Inr _, h1) \<Rightarrow> replace_keys s h1 root [] kwargs)"


subsection \<open>Stopping\<close>

text \<open>
  \<^verbatim>\<open>RunningShow.stop\<close>. \<^verbatim>\<open>set.remove\<close> raises \<^verbatim>\<open>KeyError\<close> for an element that is
  not in the set; \<^verbatim>\<open>clock.unschedule\<close> drops every pending timer of the instance.
\<close>

definition stop ::
  "'t env \<Rightarrow> 't machine \<Rightarrow> 't Show \<Rightarrow> 't RunningShow \<Rightarrow> bool option \<Rightarrow>
   (error + unit) \<times> 't machine \<times> 't Show \<times> 't RunningShow" where
  "stop env m s rs hold_arg =
     (if stopped rs then (Inr (), m, s, rs)
      else
        (let rs1 = rs\<lparr>stopped := True\<rparr>;
             m1 = m\<lparr>events := events m @ [NotifyShowStopping (rid rs)]\<rparr>
         in if rid rs \<notin> running s then (Inl KeyError, m1, s, rs1)
            else
              (let s1 = s\<lparr>running := running s - {rid rs}\<rparr>;
                   m2 = m1\<lparr>scheduled := filter (\<lambda>(r, d). r \<noteq> rid rs) (scheduled m1)\<rparr>;
                   h = (case hold_arg of None \<Rightarrow> hold rs1 | Some b \<Rightarrow> b);
                   m3 = (if \<not> h
                         then m2\<lparr>events := events m2 @
                                map (\<lambda>p. PlayerClear p (rid rs) (priority rs1)) (show_players env)\<rparr>
                         else m2);
                   m4 = (case callback rs1 of
                           Callable c \<Rightarrow> m3\<lparr>events := events m3 @ [CallbackFired c]\<rparr>
                         | _ \<Rightarrow> m3)
               in (Inr (), m4, s1, rs1))))"

subsection \<open>Running a step\<close>

text \<open>
  The loop of \<^verbatim>\<open>_run_next_step\<close> over the items of the current step: the calls of
  \<^verbatim>\<open>show_play_callback\<close> it makes, in order, up to an exception if there is one.
\<close>

fun play_items ::
  "'t env \<Rightarrow> 't store \<Rightarrow> 't RunningShow \<Rightarrow> 't event list \<Rightarrow> ('t val \<times> 't val) list \<Rightarrow>
   (error + unit) \<times> 't event list" where
  "play_items env h rs evs [] = (Inr (), evs)"
| "play_items env h rs evs ((item_type, item_dict) # rest) =
     (if item_type = VStr ''time'' then play_items env h rs evs rest
      else
        (case registered env item_type of
           None \<Rightarrow> play_items env h rs evs rest
         | Some name \<Rightarrow>
             (case py_contains_str h name item_dict of
                Inl e \<Rightarrow> (Inl e, evs)
              | Inr inside \<Rightarrow>
                  (case (if inside then py_getitem h item_dict item_type else Inr item_dict) of
                     Inl e \<Rightarrow> (Inl e, evs)
                   | Inr settings \<Rightarrow>
                       play_items env h rs
                         (evs @ [ShowPlayCallback name settings (mode rs) (rid rs)
                                   (priority rs) (hold rs) (show_tokens rs)])
                         rest))))"

text \<open>
  \<^verbatim>\<open>time / self.speed\<close>, where \<^verbatim>\<open>speed\<close> is a float: an int or a bool is converted,
  anything else that is not a float is a \<^verbatim>\<open>TypeError\<close>, and a zero speed raises.
\<close>

definition py_truediv :: "('t::{zero,divide}) env \<Rightarrow> 't val \<Rightarrow> 't \<Rightarrow> error + 't" where
  "py_truediv env v d =
     (case v of
        VFloat x \<Rightarrow> (if d = 0 then Inl ZeroDivisionError else Inr (x div d))
      | VInt i \<Rightarrow> (if d = 0 then Inl ZeroDivisionError else Inr (float_of_int env i div d))
      | VBool b \<Rightarrow>
          (if d = 0 then Inl ZeroDivisionError
           else Inr (float_of_int env (if b then 1 else 0) div d))
      | _ \<Rightarrow> Inl TypeError)"

text \<open>
  The end of \<^verbatim>\<open>_run_next_step\<close>, after the cursor has moved: unless the show is
  advanced manually, the next step is scheduled after its time divided by the speed.
\<close>

definition schedule_next ::
  "('t::{zero,plus,divide}) env \<Rightarrow> 't machine \<Rightarrow> 't Show \<Rightarrow> 't RunningShow \<Rightarrow>
   (error + 't val) \<times> 't machine \<times> 't Show \<times> 't RunningShow" where
  "schedule_next env m s rs =
     (if manual_advance rs then (Inr VNone, m, s, rs)
      else
        (case py_getitem (heap m) (rs_show_steps rs) (VInt (next_step_index rs)) of
           Inl e \<Rightarrow> (Inl e, m, s, rs)
         | Inr step \<Rightarrow>
        (case py_getitem (heap m) step (VStr ''time'') of
           Inl e \<Rightarrow> (Inl e, m, s, rs)
         | Inr tv \<Rightarrow>
        (case py_truediv env tv (speed rs) of
           Inl e \<Rightarrow> (Inl e, m, s, rs)
         | Inr time_to_next_step \<Rightarrow>
             (Inr (VFloat time_to_next_step),
              m\<lparr>scheduled := scheduled m @ [(rid rs, time_to_next_step)]\<rparr>,
              s,
              rs\<lparr>next_step_time := clock_time m + time_to_next_step\<rparr>)))))"

text \<open>
  \<^verbatim>\<open>RunningShow._run_next_step\<close>. It returns \<^verbatim>\<open>None\<close> when the clock is before the
  step's time and when the show is advanced manually, \<^verbatim>\<open>False\<close> when the show stopped
  at its end, and the delay to the next step otherwise.
\<close>

definition run_next_step ::
  "('t::{zero,plus,ord,divide}) env \<Rightarrow> 't machine \<Rightarrow> 't Show \<Rightarrow> 't RunningShow \<Rightarrow>
   (error + 't val) \<times> 't machine \<times> 't Show \<times> 't RunningShow" where
  "run_next_step env m s rs =
     (if clock_time m < next_step_time rs then (Inr VNone, m, s, rs)
      else
        (case py_getitem (heap m) (rs_show_steps rs) (VInt (next_step_index rs)) of
           Inl e \<Rightarrow> (Inl e, m, s, rs)
         | Inr step \<Rightarrow>
        (case py_items (heap m) step of
           Inl e \<Rightarrow> (Inl e, m, s, rs)
         | Inr items \<Rightarrow>
        (case play_items env (heap m) rs (events m) items of
           (Inl e, evs) \<Rightarrow> (Inl e, m\<lparr>events := evs\<rparr>, s, rs)
         | (Inr _, evs) \<Rightarrow>
             (let m1 = m\<lparr>events := evs\<rparr>
              in if next_step_index rs = int (rs_total_steps rs) - 1
                 then
                   (if loops rs > 0
                    then schedule_next env m1 s (rs\<lparr>loops := loops rs - 1\<rparr>)
                    else if loops rs < 0
                    then schedule_next env m1 s (rs\<lparr>next_step_index := 0\<rparr>)
                    else
                      (case stop env m1 s rs None of
                         (Inl e, m2, s2, rs2) \<Rightarrow> (Inl e, m2, s2, rs2)
                       | (Inr _, m2, s2, rs2) \<Rightarrow> (Inr (VBool False), m2, s2, rs2)))
                 else schedule_next env m1 s
                        (rs\<lparr>next_step_index := next_step_index rs + 1\<rparr>))))))"

subsection \<open>Creating an instance\<close>

text \<open>
  \<^verbatim>\<open>RunningShow.__init__\<close> with the arguments \<^verbatim>\<open>Show.play\<close> passes. The instance takes
  the next fresh identity. With a sync interval the first step is scheduled at the next
  boundary of the interval; otherwise it runs at once.
\<close>

definition running_show_init ::
  "('t::{zero,plus,minus,ord,divide,modulo}) env \<Rightarrow> 't machine \<Rightarrow> 't Show \<Rightarrow> 't val \<Rightarrow>
   't play_args \<Rightarrow> bool option \<Rightarrow> int \<Rightarrow>
   (error + unit) \<times> 't machine \<times> 't Show \<times> 't RunningShow" where
  "running_show_init env m s steps args hold_arg loops_arg =
     (let rs0 =
            \<lparr> rid = next_rid m, rs_show_steps = steps, priority = arg_priority args,
              hold = (case hold_arg of Some b \<Rightarrow> b | None \<Rightarrow> False),
              speed = arg_speed args, callback = arg_callback args, loops = loops_arg,
              reset = arg_reset args, mode = arg_mode args,
              manual_advance = arg_manual_advance args, key = arg_key args,
              show_tokens = arg_show_tokens args, stopped = False, rs_total_steps = 0,
              next_step_index = 0, next_step_time = clock_time m \<rparr>;
          m0 = m\<lparr>next_rid := Suc (next_rid m)\<rparr>
      in case py_len (heap m0) steps of
           Inl e \<Rightarrow> (Inl e, m0, s, rs0)
         | Inr n \<Rightarrow>
             (let start_step = arg_start_step args;
                  rs1 = rs0\<lparr> rs_total_steps := n,
                             next_step_index :=
                               (if start_step > 0 then start_step - 1
                                else if start_step < 0 then int n + start_step
                                else 0),
                             hold := (case hold_arg of Some b \<Rightarrow> b | None \<Rightarrow> n = 1) \<rparr>
              in case (if arg_show_tokens args \<noteq> [] \<and> tokens s \<noteq> {}
                       then replace_tokens s (heap m0) steps (arg_show_tokens args)
                       else (Inr (), heap m0)) of
                   (Inl e, h1) \<Rightarrow> (Inl e, m0\<lparr>heap := h1\<rparr>, s, rs1)
                 | (Inr _, h1) \<Rightarrow>
                     (let s1 = s\<lparr>running := insert (rid rs1) (running s)\<rparr>;
                          m1 = m0\<lparr>heap := h1,
                                   events := events m0 @ [NotifyShowStarting (rid rs1)]\<rparr>;
                          rs2 = rs1\<lparr>next_step_time := clock_time m1\<rparr>
                      in if arg_sync_ms args \<noteq> 0
                         then
                           (let period = float_of_int env (arg_sync_ms args) div
                                           float_of_int env 1000;
                                delay_secs = period - (next_step_time rs2 mod period)
                            in (Inr (),
                                m1\<lparr>scheduled := scheduled m1 @ [(rid rs2, delay_secs)]\<rparr>,
                                s1,
                                rs2\<lparr>next_step_time := next_step_time rs2 + delay_secs\<rparr>))
                         else
                           (case run_next_step env m1 s1 rs2 of
                              (Inl e, m2, s2, rs3) \<Rightarrow> (Inl e, m2, s2, rs3)
                            | (Inr _, m2, s2, rs3) \<Rightarrow> (Inr (), m2, s2, rs3)))))"

subsection \<open>Playing a show\<close>

text \<open>
  \<^verbatim>\<open>Show.play\<close>. The result is \<open>None\<close> for the \<^verbatim>\<open>return False\<close> of a show that is not
  loaded, and the new instance otherwise. \<^verbatim>\<open>self.load(callback=self._autoplay, ...)\<close> is
  a call into the asset loader, recorded in the log. Comparing a step count of \<^verbatim>\<open>None\<close>
  with \<^verbatim>\<open>1\<close> for order is a \<^verbatim>\<open>TypeError\<close>.
\<close>

definition play ::
  "('t::{zero,plus,minus,ord,divide,modulo}) env \<Rightarrow> 't machine \<Rightarrow> 't Show \<Rightarrow> 't play_args \<Rightarrow>
   (error + 't RunningShow option) \<times> 't machine \<times> 't Show" where
  "play env m s args =
     (if \<not> set (map fst (arg_show_tokens args)) \<subseteq> tokens s
      then (Inl (ValueError TokenMismatch), m, s)
      else if \<not> loaded s
      then (Inr None,
            m\<lparr>events := events m @ [LoadRequested (arg_priority args)]\<rparr>,
            s\<lparr>autoplay_settings := args\<rparr>)
      else
        (let hold1 = (case arg_hold args of
                        Some b \<Rightarrow> Some b
                      | None \<Rightarrow> (if total_steps s = Some 1 then Some True else None))
         in case total_steps s of
              None \<Rightarrow> (Inl TypeError, m, s)
            | Some n \<Rightarrow>
                (let loops1 = (if n > 1 then arg_loops args else 0)
                 in case get_show_steps (recursion_limit env) s (heap m) dummy_default of
                      (Inl e, h1) \<Rightarrow> (Inl e, m\<lparr>heap := h1\<rparr>, s)
                    | (Inr steps, h1) \<Rightarrow>
                        (case running_show_init env (m\<lparr>heap := h1\<rparr>) s steps args
                                (Some (case hold1 of Some b \<Rightarrow> b | None \<Rightarrow> False)) loops1 of
                           (Inl e, m2, s2, rs) \<Rightarrow> (Inl e, m2, s2)
                         | (Inr _, m2, s2, rs) \<Rightarrow> (Inr (Some rs), m2, s2)))))"



section \<open>The OPP hardware platform\<close>

text \<open>
  \<^verbatim>\<open>mpf/platforms/opp.py\<close>. A message is a sequence of bytes; card states and masks
  are Python ints. The protocol constants and the CRC8 routines of \<^verbatim>\<open>OppRs232Intf\<close>
  are not part of the sources at hand and are parameters of the model.
\<close>

type_synonym byte = "8 word"

record intf =
  CARD_ID_GEN2_CARD :: byte
  CARD_ID_TYPE_MASK :: byte
  INV_CMD :: byte
  EOM_CMD :: byte
  GET_GEN2_CFG :: byte
  READ_GEN2_INP_CMD :: byte
  GET_GET_VERS_CMD :: byte
  WING_SOL :: byte
  WING_INP :: byte
  WING_INCAND :: byte
  WING_NEO :: byte
  NUM_G2_WING_PER_BRD :: nat
  calc_crc8_part_msg :: "byte list \<Rightarrow> nat \<Rightarrow> nat \<Rightarrow> byte"
  calc_crc8_whole_msg :: "byte list \<Rightarrow> byte"


text \<open>\<^verbatim>\<open>str(n)\<close> for an int: its decimal digits, with a minus sign when negative.\<close>

definition digit_char :: "nat \<Rightarrow> char" where
  "digit_char d = char_of (48 + d)"

fun str_nat :: "nat \<Rightarrow> string" where
  "str_nat n = (if n < 10 then [digit_char n] else str_nat (n div 10) @ [digit_char (n mod 10)])"

declare str_nat.simps [simp del]

definition str_int :: "int \<Rightarrow> string" where
  "str_int i = (if i < 0 then CHR ''-'' # str_nat (nat (- i)) else str_nat (nat i))"

text \<open>The card objects. A card's number is its address less the first card address.\<close>

record input_card =
  inp_addr :: byte
  oldState :: int
  inp_card_mask :: int
  cardNum :: string

record incand_card =
  incand_addr :: byte
  incand_oldState :: int
  incand_newState :: int
  incand_card_mask :: int

record solenoid_card =
  sol_addr :: byte
  sol_card_mask :: int
  sol_state :: int

record neopixel_card =
  neo_addr :: byte
  neo_card :: string
  numPixels :: int
  numColorEntries :: int

text \<open>An \<^verbatim>\<open>OPPSolenoid\<close>: its card (by position in \<^verbatim>\<open>opp_solenoid\<close>) and its settings.\<close>

record solenoid =
  solCard :: nat
  sol_number :: string
  sol_config :: "(string \<times> string) list"
  can_be_pulsed :: bool
  use_switch :: bool

text \<open>
  The platform. The lists of cards hold the card objects; the dicts refer to a card by
  its position in its list. \<open>switch_events\<close> records the calls of
  \<^verbatim>\<open>switch_controller.process_switch_by_num(state, num)\<close>, and
  \<open>has_switch_controller\<close> is \<^verbatim>\<open>hasattr(self.machine, 'switch_controller')\<close>.
  \<open>default_pulse_ms\<close> is the text of \<^verbatim>\<open>machine.config['mpf']['default_pulse_ms']\<close>.
\<close>

record platform =
  opp_incands :: "incand_card list"
  incandDict :: "(string \<times> nat) list"
  opp_solenoid :: "solenoid_card list"
  solDict :: "(string \<times> solenoid) list"
  opp_inputs :: "input_card list"
  inpDict :: "(string \<times> nat) list"
  inpAddrDict :: "(byte \<times> nat) list"
  read_input_msg :: "byte list"
  opp_neopixels :: "neopixel_card list"
  neoCardDict :: "(string \<times> nat) list"
  numGen2Brd :: int
  gen2AddrArr :: "byte list"
  currInpData :: "int list"
  badCRC :: int
  oppFirmwareVers :: "int list"
  minVersion :: int
  receive_queue :: "byte list list"
  has_switch_controller :: bool
  switch_events :: "(int \<times> string) list"
  default_pulse_ms :: string

datatype opp_error = OppIndexError | OppKeyError | OppAssertionError

text \<open>\<^verbatim>\<open>msg[i]\<close> for an index that is not negative.\<close>

definition byte_at :: "byte list \<Rightarrow> nat \<Rightarrow> opp_error + byte" where
  "byte_at msg i = (if i < length msg then Inr (msg ! i) else Inl OppIndexError)"

subsection \<open>Input state responses\<close>

text \<open>
  The loop \<^verbatim>\<open>for index in range(0, 32)\<close> of \<^verbatim>\<open>read_gen2_inp_resp\<close>, with
  \<^verbatim>\<open>curr_bit\<close> shifted left in each round: the calls of \<^verbatim>\<open>process_switch_by_num\<close>.
\<close>

fun inp_changes ::
  "int \<Rightarrow> int \<Rightarrow> string \<Rightarrow> int \<Rightarrow> nat list \<Rightarrow> (int \<times> string) list" where
  "inp_changes changes new_state card_num curr_bit [] = []"
| "inp_changes changes new_state card_num curr_bit (index # rest) =
     (if curr_bit AND changes \<noteq> 0
      then [(if curr_bit AND new_state = 0 then 1 else 0,
             card_num @ ''-'' @ str_nat index)]
      else [])
     @ inp_changes changes new_state card_num (push_bit 1 curr_bit) rest"

text \<open>
  \<^verbatim>\<open>(msg[i] << 24) | (msg[i+1] << 16) | (msg[i+2] << 8) | msg[i+3]\<close>
\<close>

definition be32 :: "byte \<Rightarrow> byte \<Rightarrow> byte \<Rightarrow> byte \<Rightarrow> int" where
  "be32 b2 b3 b4 b5 =
     push_bit 24 (uint b2) OR push_bit 16 (uint b3) OR push_bit 8 (uint b4) OR uint b5"

definition read_gen2_inp_resp :: "intf \<Rightarrow> platform \<Rightarrow> byte list \<Rightarrow> opp_error + platform" where
  "read_gen2_inp_resp c p msg =
     (if length msg < 7 then Inl OppIndexError
      else if msg ! 6 \<noteq> calc_crc8_part_msg c msg 0 6
      then Inr (p\<lparr>badCRC := badCRC p + 1\<rparr>)
      else
        (case map_of (inpAddrDict p) (msg ! 0) of
           None \<Rightarrow> Inl OppKeyError
         | Some i \<Rightarrow>
             (if \<not> i < length (opp_inputs p) then Inl OppKeyError
              else
                (let opp_inp = opp_inputs p ! i;
                     new_state = be32 (msg ! 2) (msg ! 3) (msg ! 4) (msg ! 5);
                     changes = oldState opp_inp XOR new_state;
                     evs = (if has_switch_controller p \<and> changes \<noteq> 0
                            then inp_changes changes new_state (cardNum opp_inp) 1 [0..<32]
                            else [])
                 in Inr (p\<lparr> switch_events := switch_events p @ evs,
                            opp_inputs := (opp_inputs p)[i := opp_inp\<lparr>oldState := new_state\<rparr>] \<rparr>)))))"


subsection \<open>Inventory, configuration and version responses\<close>




text \<open>The loop over the wings of one card: \<^verbatim>\<open>(has_neo, sol_mask, inp_mask, incand_mask)\<close>.\<close>

fun wing_loop ::
  "intf \<Rightarrow> byte list \<Rightarrow> nat \<Rightarrow> bool \<times> int \<times> int \<times> int \<Rightarrow> nat list \<Rightarrow>
   opp_error + (bool \<times> int \<times> int \<times> int)" where
  "wing_loop c msg curr_index acc [] = Inr acc"
| "wing_loop c msg curr_index (has_neo, sol_mask, inp_mask, incand_mask) (wing_index # rest) =
     (case byte_at msg (curr_index + 2 + wing_index) of
        Inl e \<Rightarrow> Inl e
      | Inr b \<Rightarrow>
          wing_loop c msg curr_index
            (if b = WING_SOL c
             then (has_neo, sol_mask OR push_bit (4 * wing_index) 0x0f,
                   inp_mask OR push_bit (8 * wing_index) 0x0f, incand_mask)
             else if b = WING_INP c
             then (has_neo, sol_mask, inp_mask OR push_bit (8 * wing_index) 0xff, incand_mask)
             else if b = WING_INCAND c
             then (has_neo, sol_mask, inp_mask, incand_mask OR push_bit (8 * wing_index) 0xff)
             else if b = WING_NEO c
             then (True, sol_mask, inp_mask, incand_mask)
             else (has_neo, sol_mask, inp_mask, incand_mask))
            rest)"

text \<open>
  The numbers \<^verbatim>\<open>card + '-' + str(index)\<close> of the channels of a mask, for
  \<^verbatim>\<open>index in range(0, n)\<close> with \<^verbatim>\<open>((1 << index) & mask) != 0\<close>.
\<close>

definition channel_numbers :: "string \<Rightarrow> int \<Rightarrow> nat \<Rightarrow> string list" where
  "channel_numbers card_num msk n =
     map (\<lambda>index. card_num @ ''-'' @ str_nat index)
       (filter (\<lambda>index. push_bit index 1 AND msk \<noteq> 0) [0..<n])"

definition card_str :: "intf \<Rightarrow> byte \<Rightarrow> string" where
  "card_str c addr = str_int (uint addr - uint (CARD_ID_GEN2_CARD c))"

definition add_incand_card :: "intf \<Rightarrow> platform \<Rightarrow> byte \<Rightarrow> int \<Rightarrow> platform" where
  "add_incand_card c p addr msk =
     p\<lparr> incandDict :=
          fold (\<lambda>number d. dict_set d number (length (opp_incands p)))
            (channel_numbers (card_str c addr) msk 32) (incandDict p),
        opp_incands := opp_incands p @
          [\<lparr> incand_addr = addr, incand_oldState = 0, incand_newState = 0,
             incand_card_mask = msk \<rparr>] \<rparr>"

definition add_solenoid_card :: "intf \<Rightarrow> platform \<Rightarrow> byte \<Rightarrow> int \<Rightarrow> platform" where
  "add_solenoid_card c p addr msk =
     p\<lparr> solDict :=
          fold (\<lambda>number d. dict_set d number
                  \<lparr> solCard = length (opp_solenoid p), sol_number = number,
                    sol_config = [(''pulse_ms'', default_pulse_ms p), (''hold_power'', ''0'')],
                    can_be_pulsed = False, use_switch = False \<rparr>)
            (channel_numbers (card_str c addr) msk 16) (solDict p),
        opp_solenoid := opp_solenoid p @
          [\<lparr> sol_addr = addr, sol_card_mask = msk, sol_state = 0 \<rparr>] \<rparr>"

definition add_input_card :: "intf \<Rightarrow> platform \<Rightarrow> byte \<Rightarrow> int \<Rightarrow> platform" where
  "add_input_card c p addr msk =
     p\<lparr> inpAddrDict := dict_set (inpAddrDict p) addr (length (opp_inputs p)),
        inpDict :=
          fold (\<lambda>number d. dict_set d number (length (opp_inputs p)))
            (channel_numbers (card_str c addr) msk 32) (inpDict p),
        opp_inputs := opp_inputs p @
          [\<lparr> inp_addr = addr, oldState = 0, inp_card_mask = msk,
             cardNum = card_str c addr \<rparr>] \<rparr>"

definition add_neopixel_card :: "intf \<Rightarrow> platform \<Rightarrow> byte \<Rightarrow> platform" where
  "add_neopixel_card c p addr =
     p\<lparr> neoCardDict := dict_set (neoCardDict p) (card_str c addr) (length (opp_neopixels p)),
        opp_neopixels := opp_neopixels p @
          [\<lparr> neo_addr = addr, neo_card = card_str c addr, numPixels = 0,
             numColorEntries = 0 \<rparr>] \<rparr>"

text \<open>The poll command of an input card that is added to the read-input message.\<close>

definition inp_msg :: "intf \<Rightarrow> byte \<Rightarrow> byte list" where
  "inp_msg c addr =
     (let m = [addr, READ_GEN2_INP_CMD c, 0, 0, 0, 0] in m @ [calc_crc8_whole_msg c m])"

text \<open>The \<^verbatim>\<open>else\<close> branch of the CRC check: the cards of one sub-frame.\<close>

definition cfg_card ::
  "intf \<Rightarrow> platform \<Rightarrow> byte list \<Rightarrow> nat \<Rightarrow> byte list \<Rightarrow> opp_error + (platform \<times> byte list)" where
  "cfg_card c p msg curr_index whole_msg =
     (case wing_loop c msg curr_index (False, 0, 0, 0) [0..<NUM_G2_WING_PER_BRD c] of
        Inl e \<Rightarrow> Inl e
      | Inr (has_neo, sol_mask, inp_mask, incand_mask) \<Rightarrow>
          (let addr = msg ! curr_index;
               p1 = (if incand_mask \<noteq> 0 then add_incand_card c p addr incand_mask else p);
               p2 = (if sol_mask \<noteq> 0 then add_solenoid_card c p1 addr sol_mask else p1);
               p3 = (if inp_mask \<noteq> 0 then add_input_card c p2 addr inp_mask else p2);
               whole1 = (if inp_mask \<noteq> 0 then whole_msg @ inp_msg c addr else whole_msg);
               p4 = (if has_neo then add_neopixel_card c p3 addr else p3)
           in Inr (p4, whole1)))"

text \<open>
  The \<^verbatim>\<open>while True\<close> loop of \<^verbatim>\<open>get_gen2_cfg_resp\<close>. A bad CRC counts and leaves the
  loop; otherwise the loop goes on to the next sub-frame when the byte after this one is
  not the end of message and the next command byte is the configuration command.
\<close>

function get_gen2_cfg_loop ::
  "intf \<Rightarrow> platform \<Rightarrow> byte list \<Rightarrow> nat \<Rightarrow> byte list \<Rightarrow> opp_error + (platform \<times> byte list)" where
  "get_gen2_cfg_loop c p msg curr_index whole_msg =
     (if \<not> curr_index + 6 < length msg then Inl OppIndexError
      else if msg ! (curr_index + 6) \<noteq> calc_crc8_part_msg c msg curr_index 6
      then Inr (p\<lparr>badCRC := badCRC p + 1\<rparr>, whole_msg)
      else
        (case cfg_card c p msg curr_index whole_msg of
           Inl e \<Rightarrow> Inl e
         | Inr (p1, whole1) \<Rightarrow>
             (if \<not> curr_index + 7 < length msg then Inl OppIndexError
              else if msg ! (curr_index + 7) = EOM_CMD c then Inr (p1, whole1)
              else if \<not> curr_index + 8 < length msg then Inl OppIndexError
              else if msg ! (curr_index + 8) = GET_GEN2_CFG c
              then get_gen2_cfg_loop c p1 msg (curr_index + 7) whole1
              else Inr (p1, whole1))))"
  by pat_completeness auto
termination
  by (relation "measure (\<lambda>(c, p, msg, curr_index, whole_msg). length msg - curr_index)") auto

declare get_gen2_cfg_loop.simps [simp del]

definition get_gen2_cfg_resp :: "intf \<Rightarrow> platform \<Rightarrow> byte list \<Rightarrow> opp_error + platform" where
  "get_gen2_cfg_resp c p msg =
     (case get_gen2_cfg_loop c p msg 0 [] of
        Inl e \<Rightarrow> Inl e
      | Inr (p1, whole_msg) \<Rightarrow> Inr (p1\<lparr>read_input_msg := whole_msg @ [EOM_CMD c]\<rparr>))"




subsection \<open>Dispatch\<close>







subsection \<open>The receive loop\<close>








section \<open>Concrete collaborators for the examples\<close>

text \<open>
  The examples below run the model with floats read as ints, two registered players whose
  validator returns the entry as it is, and a \<^verbatim>\<open>string_to_secs\<close> that knows numbers and
  the default \<^verbatim>\<open>'+1'\<close>.
\<close>

definition example_secs :: "int store \<Rightarrow> int val \<Rightarrow> error + int" where
  "example_secs h v =
     (case v of
        VInt i \<Rightarrow> Inr i
      | VFloat x \<Rightarrow> Inr x
      | VStr str \<Rightarrow> (if str = ''+1'' then Inr 1 else Inl (ExternalError ''string_to_secs''))
      | _ \<Rightarrow> Inl (ExternalError ''string_to_secs''))"

definition example_env :: "int env" where
  "example_env =
     \<lparr> show_players = [''lights'', ''leds''],
       validate_show_config = (\<lambda>name h device settings. Inr ([(device, settings)], h)),
       string_to_secs = example_secs,
       get_show_file_version = (\<lambda>f. 3),
       show_version = 3,
       file_load = (\<lambda>f h. Inl (ExternalError ''file_load'')),
       float_of_int = (\<lambda>i. i),
       recursion_limit = 50 \<rparr>"

definition example_machine :: "int store \<Rightarrow> int machine" where
  "example_machine h =
     \<lparr> heap = h, clock_time = 0, scheduled = [], events = [], next_rid = 0 \<rparr>"

text \<open>
  The OPP protocol bytes, and a CRC8 for the examples (polynomial \<^verbatim>\<open>0x07\<close>, start value
  \<^verbatim>\<open>0xff\<close>).
\<close>

definition crc8_shift :: "byte \<Rightarrow> byte" where
  "crc8_shift x = (if bit x 7 then push_bit 1 x XOR 0x07 else push_bit 1 x)"

definition crc8_update :: "byte \<Rightarrow> byte \<Rightarrow> byte" where
  "crc8_update b crc = (crc8_shift ^^ 8) (crc XOR b)"

definition example_crc8 :: "byte list \<Rightarrow> byte" where
  "example_crc8 msg = fold crc8_update msg 0xff"

definition example_intf :: intf where
  "example_intf =
     \<lparr> CARD_ID_GEN2_CARD = 0x20, CARD_ID_TYPE_MASK = 0xf0, INV_CMD = 0xf0, EOM_CMD = 0xff,
       GET_GEN2_CFG = 0x0d, READ_GEN2_INP_CMD = 0x08, GET_GET_VERS_CMD = 0x02,
       WING_SOL = 0x01, WING_INP = 0x02, WING_INCAND = 0x03, WING_NEO = 0x06,
       NUM_G2_WING_PER_BRD = 4,
       calc_crc8_part_msg = (\<lambda>msg start n. example_crc8 (take n (drop start msg))),
       calc_crc8_whole_msg = example_crc8 \<rparr>"

definition example_platform :: platform where
  "example_platform =
     \<lparr> opp_incands = [], incandDict = [], opp_solenoid = [], solDict = [],
       opp_inputs = [\<lparr> inp_addr = 0x20, oldState = 0, inp_card_mask = 0xff, cardNum = ''0'' \<rparr>],
       inpDict = [], inpAddrDict = [(0x20, 0)], read_input_msg = [0xff],
       opp_neopixels = [], neoCardDict = [], numGen2Brd = 1, gen2AddrArr = [0x20],
       currInpData = [0], badCRC = 0, oppFirmwareVers = [], minVersion = 0xffffffff,
       receive_queue = [], has_switch_controller = True, switch_events = [],
       default_pulse_ms = ''10'' \<rparr>"


text \<open>
  The show of the token example: one step \<^verbatim>\<open>{"(token1)": {"brightness": "(token2)"}}\<close>,
  with the tokens \<^verbatim>\<open>_get_tokens\<close> finds in it, and the bindings it is played with.
\<close>

definition token_store :: "int store" where
  "token_store =
     [OList [VRef 1],
      ODict [(VStr ''(token1)'', VRef 2)],
      ODict [(VStr ''brightness'', VStr ''(token2)'')]]"

definition token_show :: "int Show" where
  "token_show =
     snd (get_tokens example_env token_store
            ((new_show None)\<lparr>show_steps := VRef 0, total_steps := Some 1, loaded := True\<rparr>))"

definition token_args :: "int play_args" where
  "token_args =
     default_args\<lparr>arg_show_tokens := [(''token1'', VStr ''led_1''), (''token2'', VInt 200)]\<rparr>"

text \<open>
  The clock calling \<^verbatim>\<open>_run_next_step\<close> of an instance: a pending timer of the
  instance is taken from the clock and the step runs at clock time \<open>t\<close>. \<open>run_timer\<close>
  does so at each of a list of times; an exception of a step is swallowed here, and the
  state it left is kept.
\<close>

fun drop_timer :: "nat \<Rightarrow> (nat \<times> 't) list \<Rightarrow> (nat \<times> 't) list" where
  "drop_timer r [] = []"
| "drop_timer r ((r', d) # rest) = (if r' = r then rest else (r', d) # drop_timer r rest)"

definition fire ::
  "('t::{zero,plus,ord,divide}) env \<Rightarrow> 't machine \<Rightarrow> 't Show \<Rightarrow> 't RunningShow \<Rightarrow> 't \<Rightarrow>
   (error + 't val) \<times> 't machine \<times> 't Show \<times> 't RunningShow" where
  "fire env m s rs t =
     run_next_step env (m\<lparr>clock_time := t, scheduled := drop_timer (rid rs) (scheduled m)\<rparr>) s rs"

fun run_timer ::
  "('t::{zero,plus,ord,divide}) env \<Rightarrow> 't machine \<times> 't Show \<times> 't RunningShow \<Rightarrow> 't list \<Rightarrow>
   't machine \<times> 't Show \<times> 't RunningShow" where
  "run_timer env st [] = st"
| "run_timer env (m, s, rs) (t # ts) = run_timer env (snd (fire env m s rs t)) ts"

text \<open>A show of two steps, one second apart, for the examples of looping.\<close>

definition loop_store :: "int store" where
  "loop_store =
     [OList [VRef 1, VRef 2],
      ODict [(VStr ''time'', VFloat 0)],
      ODict [(VStr ''time'', VFloat 1)]]"

definition loop_show :: "int Show" where
  "loop_show = (new_show None)\<lparr>show_steps := VRef 0, total_steps := Some 2, loaded := True\<rparr>"

text \<open>
  The show data \<^verbatim>\<open>[{time: 0, lights: {l1: {}}}, {time: -1}]\<close>, and a show that is a
  single map \<^verbatim>\<open>{time: 0}\<close>, once as the root and once as the only step of a list.
\<close>

definition order_store :: "int store" where
  "order_store =
     [OList [VRef 1, VRef 4],
      ODict [(VStr ''time'', VInt 0), (VStr ''lights'', VRef 2)],
      ODict [(VStr ''l1'', VRef 3)],
      ODict [],
      ODict [(VStr ''time'', VInt (- 1))]]"

definition map_store :: "int store" where
  "map_store = [ODict [(VStr ''time'', VInt 0)], OList [VRef 0]]"






section \<open>Playing: token mismatch, shows that are not loaded, single-step shows\<close>

text \<open>
  C8. A play call whose binding names are not a subset of the show's tokens raises the
  token mismatch \<^verbatim>\<open>ValueError\<close> and leaves the machine and the show as they were: no
  instance is created and none is registered in the show's running set.
\<close>

theorem play_token_mismatch:
  "\<not> set (map fst (arg_show_tokens args)) \<subseteq> tokens s \<Longrightarrow>
   play env m s args = (Inl (ValueError TokenMismatch), m, s)"
  by (simp add: play_def)

theorem play_token_mismatch_witness:
  "\<not> set (map fst (arg_show_tokens
        ((default_args :: int play_args)\<lparr>arg_show_tokens := [(''color'', VStr ''red'')]\<rparr>)))
      \<subseteq> tokens token_show \<and>
   play example_env (example_machine token_store) token_show
     (default_args\<lparr>arg_show_tokens := [(''color'', VStr ''red'')]\<rparr>)
   = (Inl (ValueError TokenMismatch), example_machine token_store, token_show)"
proof -
  have h: "\<not> set (map fst (arg_show_tokens
        ((default_args :: int play_args)\<lparr>arg_show_tokens := [(''color'', VStr ''red'')]\<rparr>)))
      \<subseteq> tokens token_show"
    by code_simp
  show ?thesis
    using h play_token_mismatch [OF h, of example_env "example_machine token_store"] by simp
qed



lemma stop_keeps_hold_loops:
  "stop env m s rs ho = (r, m', s', rs') \<Longrightarrow> hold rs' = hold rs \<and> loops rs' = loops rs"
  by (auto simp: stop_def Let_def split: if_splits callback.splits)

lemma schedule_next_keeps_hold_loops:
  "schedule_next env m s rs = (r, m', s', rs') \<Longrightarrow> hold rs' = hold rs \<and> loops rs' = loops rs"
  by (auto simp: schedule_next_def split: if_splits sum.splits)

lemma run_next_step_keeps_hold:
  "run_next_step env m s rs = (r, m', s', rs') \<Longrightarrow> loops rs = 0 \<Longrightarrow>
   hold rs' = hold rs \<and> loops rs' = 0"
  by (auto simp: run_next_step_def Let_def split: if_splits sum.splits prod.splits
      dest!: stop_keeps_hold_loops schedule_next_keeps_hold_loops)

text \<open>
  C9. A loaded show with exactly one step, played without a hold flag: the call does not
  return \<^verbatim>\<open>False\<close>, and the instance it returns holds and has loop count 0, whatever
  loop count the caller gave.
\<close>

lemma play_loaded_not_false:
  "loaded s \<Longrightarrow> play env m s args \<noteq> (Inr None, m', s')"
  by (auto simp: play_def Let_def split: if_splits option.splits sum.splits prod.splits)

lemma play_single_step_flags:
  assumes "loaded s" and "total_steps s = Some 1" and "arg_hold args = None"
    and "play env m s args = (Inr (Some rs), m', s')"
  shows "hold rs \<and> loops rs = 0"
  using assms
  by (auto simp: play_def running_show_init_def Let_def
      split: if_splits sum.splits prod.splits dest!: run_next_step_keeps_hold)

theorem play_single_step:
  assumes "loaded s" and "total_steps s = Some 1" and "arg_hold args = None"
  shows "play env m s args \<noteq> (Inr None, m', s')
       \<and> (play env m s args = (Inr (Some rs), m', s') \<longrightarrow> hold rs \<and> loops rs = 0)"
  using play_loaded_not_false [OF assms(1)] play_single_step_flags [OF assms] by blast

theorem play_single_step_witness:
  "loaded token_show \<and> total_steps token_show = Some 1
   \<and> arg_hold (token_args\<lparr>arg_loops := 5\<rparr>) = None
   \<and> (\<exists>rs m' s'.
        play example_env (example_machine token_store) token_show (token_args\<lparr>arg_loops := 5\<rparr>)
          = (Inr (Some rs), m', s')
        \<and> hold rs \<and> loops rs = 0)"
proof -
  have h1: "loaded token_show" by code_simp
  have h2: "total_steps token_show = Some 1" by code_simp
  have h3: "arg_hold (token_args\<lparr>arg_loops := 5\<rparr>) = None" by code_simp
  have "case fst (play example_env (example_machine token_store) token_show
                    (token_args\<lparr>arg_loops := 5\<rparr>)) of
          Inr (Some rs) \<Rightarrow> True | _ \<Rightarrow> False"
    by code_simp
  then obtain rs m' s' where
    p: "play example_env (example_machine token_store) token_show (token_args\<lparr>arg_loops := 5\<rparr>)
          = (Inr (Some rs), m', s')"
    by (cases "play example_env (example_machine token_store) token_show
                 (token_args\<lparr>arg_loops := 5\<rparr>)")
       (auto split: sum.splits option.splits)
  from play_single_step [OF h1 h2 h3, of example_env "example_machine token_store" m' s' rs] p
  have "hold rs \<and> loops rs = 0" by blast
  with h1 h2 h3 p show ?thesis by blast
qed

section \<open>Input state responses\<close>

lemma and_pow2_iff: "(2 ^ k AND (x::int) \<noteq> 0) = bit x k"
  by (simp add: bit_iff_and_push_bit_not_eq_0 push_bit_eq_mult and.commute)

lemma and_pow2_zero_iff: "(2 ^ k AND (x::int) = 0) = (\<not> bit x k)"
  using and_pow2_iff [of k x] by blast

lemma inp_changes_from:
  "inp_changes changes new_state cn (2 ^ k) [k..<n] =
     map (\<lambda>j. (if bit new_state j then 0 else 1, cn @ ''-'' @ str_nat j))
       (filter (\<lambda>j. bit changes j) [k..<n])"
proof (induction "n - k" arbitrary: k)
  case 0
  then show ?case by simp
next
  case (Suc d)
  then have kn: "k < n" and d: "d = n - Suc k" by auto
  have step: "[k..<n] = k # [Suc k..<n]" using kn by (simp add: upt_conv_Cons)
  have pb: "push_bit 1 ((2::int) ^ k) = 2 ^ Suc k" by (simp add: push_bit_eq_mult)
  have IH: "inp_changes changes new_state cn (push_bit 1 (2 ^ k)) [Suc k..<n] =
     map (\<lambda>j. (if bit new_state j then 0 else 1, cn @ ''-'' @ str_nat j))
       (filter (\<lambda>j. bit changes j) [Suc k..<n])"
    using Suc.hyps(1) [OF d] by (simp only: pb)
  show ?case
    by (simp only: step inp_changes.simps IH and_pow2_iff and_pow2_zero_iff) simp
qed

lemma inp_changes_all:
  "inp_changes (old XOR new_state) new_state cn 1 [0..<32] =
     map (\<lambda>j. (if bit new_state j then 0 else 1, cn @ ''-'' @ str_nat j))
       (filter (\<lambda>j. bit old j \<noteq> bit new_state j) [0..<32])"
  using inp_changes_from [of "old XOR new_state" new_state cn 0 32]
  by (simp add: bit_xor_iff del: upt_Suc)

lemma xor_zero_bits: "(old::int) XOR new_state = 0 \<Longrightarrow> bit old j = bit new_state j"
proof -
  assume "old XOR new_state = 0"
  then have "bit (old XOR new_state) j = False" by simp
  then show ?thesis by (simp add: bit_xor_iff)
qed

text \<open>
  What a response with a good CRC for a known card does, with or without a switch
  controller: the events, if any, and the new stored state.
\<close>

lemma read_gen2_inp_resp_good:
  assumes "length msg = 7"
    and "msg ! 6 = calc_crc8_part_msg c msg 0 6"
    and "map_of (inpAddrDict p) (msg ! 0) = Some i"
    and "i < length (opp_inputs p)"
  shows "read_gen2_inp_resp c p msg =
     Inr (p\<lparr> switch_events := switch_events p @
                (if has_switch_controller p
                 then map (\<lambda>j. (if bit (be32 (msg ! 2) (msg ! 3) (msg ! 4) (msg ! 5)) j
                                 then 0 else 1,
                                 cardNum (opp_inputs p ! i) @ ''-'' @ str_nat j))
                        (filter (\<lambda>j. bit (oldState (opp_inputs p ! i)) j \<noteq>
                                     bit (be32 (msg ! 2) (msg ! 3) (msg ! 4) (msg ! 5)) j)
                           [0..<32])
                 else []),
              opp_inputs := (opp_inputs p)
                [i := (opp_inputs p ! i)
                        \<lparr>oldState := be32 (msg ! 2) (msg ! 3) (msg ! 4) (msg ! 5)\<rparr>] \<rparr>)"
proof (cases "oldState (opp_inputs p ! i) XOR be32 (msg ! 2) (msg ! 3) (msg ! 4) (msg ! 5) = 0")
  case True
  then show ?thesis
    using assms by (simp add: read_gen2_inp_resp_def Let_def xor_zero_bits [OF True] del: upt_Suc)
next
  case False
  then show ?thesis
    using assms by (simp add: read_gen2_inp_resp_def Let_def inp_changes_all del: upt_Suc)
qed

text \<open>
  C5, as amended. When the machine has a switch controller, a response of seven bytes
  with a good CRC for a known input card reports one event for each of the 32 bit
  positions in which the card's stored state and the new state differ, in rising
  order of the position, with state 1 exactly when the new bit is 0, and stores the new
  state. (Without a switch controller it reports nothing and stores the new state.)
\<close>

theorem read_gen2_inp_resp_events:
  assumes "length msg = 7"
    and "msg ! 6 = calc_crc8_part_msg c msg 0 6"
    and "map_of (inpAddrDict p) (msg ! 0) = Some i"
    and "i < length (opp_inputs p)"
    and "has_switch_controller p"
  shows "read_gen2_inp_resp c p msg =
     Inr (p\<lparr> switch_events := switch_events p @
                map (\<lambda>j. (if bit (be32 (msg ! 2) (msg ! 3) (msg ! 4) (msg ! 5)) j then 0 else 1,
                          cardNum (opp_inputs p ! i) @ ''-'' @ str_nat j))
                  (filter (\<lambda>j. bit (oldState (opp_inputs p ! i)) j \<noteq>
                               bit (be32 (msg ! 2) (msg ! 3) (msg ! 4) (msg ! 5)) j) [0..<32]),
              opp_inputs := (opp_inputs p)
                [i := (opp_inputs p ! i)
                        \<lparr>oldState := be32 (msg ! 2) (msg ! 3) (msg ! 4) (msg ! 5)\<rparr>] \<rparr>)"
  using read_gen2_inp_resp_good [OF assms(1-4)] assms(5) by simp

text \<open>
  The stored state 0 and the new state 1 give one event, for channel 0; the same
  response once more gives none.
\<close>

theorem read_gen2_inp_resp_events_witness:
  "length [0x20, 0x08, 0, 0, 0, 1, 0x8A :: byte] = 7
   \<and> [0x20, 0x08, 0, 0, 0, 1, 0x8A] ! 6 =
       calc_crc8_part_msg example_intf [0x20, 0x08, 0, 0, 0, 1, 0x8A] 0 6
   \<and> map_of (inpAddrDict example_platform) ([0x20, 0x08, 0, 0, 0, 1, 0x8A] ! 0) = Some 0
   \<and> 0 < length (opp_inputs example_platform)
   \<and> has_switch_controller example_platform
   \<and> read_gen2_inp_resp example_intf example_platform [0x20, 0x08, 0, 0, 0, 1, 0x8A] =
       Inr (example_platform
              \<lparr> switch_events := [(0, ''0-0'')],
                opp_inputs := [\<lparr> inp_addr = 0x20, oldState = 1, inp_card_mask = 0xff,
                                 cardNum = ''0'' \<rparr>] \<rparr>)
   \<and> read_gen2_inp_resp example_intf
        (example_platform
              \<lparr> switch_events := [(0, ''0-0'')],
                opp_inputs := [\<lparr> inp_addr = 0x20, oldState = 1, inp_card_mask = 0xff,
                                 cardNum = ''0'' \<rparr>] \<rparr>)
        [0x20, 0x08, 0, 0, 0, 1, 0x8A] =
       Inr (example_platform
              \<lparr> switch_events := [(0, ''0-0'')],
                opp_inputs := [\<lparr> inp_addr = 0x20, oldState = 1, inp_card_mask = 0xff,
                                 cardNum = ''0'' \<rparr>] \<rparr>)"
proof -
  let ?msg = "[0x20, 0x08, 0, 0, 0, 1, 0x8A :: byte]"
  have h1: "length ?msg = 7" by simp
  have h2: "?msg ! 6 = calc_crc8_part_msg example_intf ?msg 0 6" by code_simp
  have h3: "map_of (inpAddrDict example_platform) (?msg ! 0) = Some 0" by code_simp
  have h4: "0 < length (opp_inputs example_platform)" by code_simp
  have h5: "has_switch_controller example_platform" by code_simp
  have r: "read_gen2_inp_resp example_intf example_platform ?msg =
        Inr (example_platform\<lparr> switch_events := switch_events example_platform @
                map (\<lambda>j. (if bit (be32 (?msg ! 2) (?msg ! 3) (?msg ! 4) (?msg ! 5)) j then 0 else 1,
                          cardNum (opp_inputs example_platform ! 0) @ ''-'' @ str_nat j))
                  (filter (\<lambda>j. bit (oldState (opp_inputs example_platform ! 0)) j \<noteq>
                               bit (be32 (?msg ! 2) (?msg ! 3) (?msg ! 4) (?msg ! 5)) j) [0..<32]),
              opp_inputs := (opp_inputs example_platform)
                [0 := (opp_inputs example_platform ! 0)
                        \<lparr>oldState := be32 (?msg ! 2) (?msg ! 3) (?msg ! 4) (?msg ! 5)\<rparr>] \<rparr>)"
    by (rule read_gen2_inp_resp_events [OF h1 h2 h3 h4 h5])
  have v: "example_platform\<lparr> switch_events := switch_events example_platform @
                map (\<lambda>j. (if bit (be32 (?msg ! 2) (?msg ! 3) (?msg ! 4) (?msg ! 5)) j then 0 else 1,
                          cardNum (opp_inputs example_platform ! 0) @ ''-'' @ str_nat j))
                  (filter (\<lambda>j. bit (oldState (opp_inputs example_platform ! 0)) j \<noteq>
                               bit (be32 (?msg ! 2) (?msg ! 3) (?msg ! 4) (?msg ! 5)) j) [0..<32]),
              opp_inputs := (opp_inputs example_platform)
                [0 := (opp_inputs example_platform ! 0)
                        \<lparr>oldState := be32 (?msg ! 2) (?msg ! 3) (?msg ! 4) (?msg ! 5)\<rparr>] \<rparr>
         = example_platform
              \<lparr> switch_events := [(0, ''0-0'')],
                opp_inputs := [\<lparr> inp_addr = 0x20, oldState = 1, inp_card_mask = 0xff,
                                 cardNum = ''0'' \<rparr>] \<rparr>"
    by code_simp
  have again: "read_gen2_inp_resp example_intf
        (example_platform
              \<lparr> switch_events := [(0, ''0-0'')],
                opp_inputs := [\<lparr> inp_addr = 0x20, oldState = 1, inp_card_mask = 0xff,
                                 cardNum = ''0'' \<rparr>] \<rparr>)
        ?msg =
       Inr (example_platform
              \<lparr> switch_events := [(0, ''0-0'')],
                opp_inputs := [\<lparr> inp_addr = 0x20, oldState = 1, inp_card_mask = 0xff,
                                 cardNum = ''0'' \<rparr>] \<rparr>)"
    by code_simp
  show ?thesis
    using h1 h2 h3 h4 h5 r again unfolding v by blast
qed

text \<open>
  The claim as it was stated fails while the machine has no switch controller: the
  stored state 0 and the new state 1 differ in bit 0, and no event is reported.
\<close>

theorem read_gen2_inp_resp_no_controller_counterexample:
  "read_gen2_inp_resp example_intf (example_platform\<lparr>has_switch_controller := False\<rparr>)
     [0x20, 0x08, 0, 0, 0, 1, 0x8A] =
   Inr (example_platform
          \<lparr> has_switch_controller := False,
            switch_events := [],
            opp_inputs := [\<lparr> inp_addr = 0x20, oldState = 1, inp_card_mask = 0xff,
                             cardNum = ''0'' \<rparr>] \<rparr>)"
  by code_simp

section \<open>Advancing and stopping\<close>

lemma schedule_next_keeps:
  "schedule_next env m s rs = (r, m', s', rs') \<Longrightarrow>
   loops rs' = loops rs \<and> stopped rs' = stopped rs \<and> rid rs' = rid rs \<and> running s' = running s
   \<and> callback rs' = callback rs \<and> next_step_index rs' = next_step_index rs
   \<and> rs_total_steps rs' = rs_total_steps rs \<and> events m' = events m"
  by (auto simp: schedule_next_def split: if_splits sum.splits)

text \<open>A step of an instance with a negative loop count never calls \<^verbatim>\<open>stop\<close>.\<close>

lemma run_next_step_infinite:
  assumes "loops rs < 0" and "run_next_step env m s rs = (r, m', s', rs')"
  shows "loops rs' = loops rs \<and> stopped rs' = stopped rs \<and> rid rs' = rid rs
       \<and> running s' = running s \<and> callback rs' = callback rs"
  using assms
  by (auto simp: run_next_step_def Let_def split: if_splits sum.splits prod.splits
      dest!: schedule_next_keeps)

lemma run_timer_infinite:
  assumes "loops rs < 0" and "run_timer env (m, s, rs) ts = (mn, sn, rsn)"
  shows "loops rsn = loops rs \<and> stopped rsn = stopped rs \<and> rid rsn = rid rs
       \<and> running sn = running s \<and> callback rsn = callback rs"
  using assms
proof (induction ts arbitrary: m s rs)
  case Nil
  then show ?case by simp
next
  case (Cons t ts)
  obtain r m1 s1 rs1 where f: "fire env m s rs t = (r, m1, s1, rs1)"
    by (metis prod.collapse)
  have k: "loops rs1 = loops rs \<and> stopped rs1 = stopped rs \<and> rid rs1 = rid rs
       \<and> running s1 = running s \<and> callback rs1 = callback rs"
    using run_next_step_infinite [OF Cons.prems(1)] f by (simp add: fire_def)
  have "run_timer env (m1, s1, rs1) ts = (mn, sn, rsn)"
    using Cons.prems(2) f by simp
  from Cons.IH [OF _ this] k Cons.prems(1) show ?case by simp
qed

text \<open>The first \<^verbatim>\<open>stop\<close> of a registered instance, and a second one after it.\<close>

lemma stop_once:
  assumes "\<not> stopped rs" and "rid rs \<in> running s"
  shows "\<exists>m1 s1 rs1.
           stop env m s rs ho = (Inr (), m1, s1, rs1)
         \<and> stopped rs1 \<and> running s1 = running s - {rid rs}
         \<and> (\<forall>c. callback rs = Callable c \<longrightarrow>
               count_list (events m1) (CallbackFired c) =
                 Suc (count_list (events m) (CallbackFired c)))
         \<and> stop env m1 s1 rs1 ho2 = (Inr (), m1, s1, rs1)"
proof -
  have nc: "\<And>c xs. count_list (map (\<lambda>p. PlayerClear p (rid rs) (priority rs)) xs)
                   (CallbackFired c :: 't event) = 0"
    by (simp add: image_iff)
  show ?thesis
    using assms
    by (auto simp: stop_def Let_def nc split: callback.splits)
qed

text \<open>
  C4. An instance with a negative loop count is never stopped by the clock running its
  steps, at whatever times and however often. The first \<^verbatim>\<open>stop\<close> then stops it, takes
  it out of the show's running set and calls the completion callback once; a second
  \<^verbatim>\<open>stop\<close> changes nothing, so the callback is not called again.
\<close>

theorem infinite_show_stops_once:
  assumes "loops rs < 0" and "\<not> stopped rs" and "rid rs \<in> running s"
    and "run_timer env (m, s, rs) ts = (mn, sn, rsn)"
  shows "\<not> stopped rsn
       \<and> (\<exists>m1 s1 rs1.
             stop env mn sn rsn ho = (Inr (), m1, s1, rs1)
           \<and> stopped rs1 \<and> rid rsn \<notin> running s1
           \<and> (\<forall>c. callback rsn = Callable c \<longrightarrow>
                 count_list (events m1) (CallbackFired c) =
                   Suc (count_list (events mn) (CallbackFired c)))
           \<and> stop env m1 s1 rs1 ho2 = (Inr (), m1, s1, rs1))"
proof -
  have k: "loops rsn = loops rs \<and> stopped rsn = stopped rs \<and> rid rsn = rid rs
       \<and> running sn = running s \<and> callback rsn = callback rs"
    by (rule run_timer_infinite [OF assms(1) assms(4)])
  then have a: "\<not> stopped rsn" and b: "rid rsn \<in> running sn"
    using assms(2,3) by simp_all
  from stop_once [OF a b, of env mn ho ho2] a show ?thesis by auto
qed


theorem infinite_show_stops_once_witness:
  "\<exists>rs m s mn sn rsn m1 s1 rs1.
     play example_env (example_machine loop_store) loop_show
       (default_args\<lparr>arg_callback := Callable 7\<rparr>) = (Inr (Some rs), m, s)
   \<and> loops rs < 0 \<and> \<not> stopped rs \<and> rid rs \<in> running s
   \<and> run_timer example_env (m, s, rs) [1, 2, 3] = (mn, sn, rsn)
   \<and> \<not> stopped rsn
   \<and> stop example_env mn sn rsn None = (Inr (), m1, s1, rs1)
   \<and> stopped rs1 \<and> rid rsn \<notin> running s1
   \<and> count_list (events m1) (CallbackFired 7) = Suc (count_list (events mn) (CallbackFired 7))
   \<and> stop example_env m1 s1 rs1 None = (Inr (), m1, s1, rs1)"
proof -
  have "case play example_env (example_machine loop_store) loop_show
               (default_args\<lparr>arg_callback := Callable 7\<rparr>) of
          (Inr (Some rs), m, s) \<Rightarrow>
            loops rs < 0 \<and> \<not> stopped rs \<and> rid rs \<in> running s \<and> callback rs = Callable 7
        | _ \<Rightarrow> False"
    by code_simp
  then obtain rs m s where
    p: "play example_env (example_machine loop_store) loop_show
          (default_args\<lparr>arg_callback := Callable 7\<rparr>) = (Inr (Some rs), m, s)"
    and h1: "loops rs < 0" and h2: "\<not> stopped rs" and h3: "rid rs \<in> running s"
    and cb: "callback rs = Callable 7"
    by (auto split: prod.splits sum.splits option.splits)
  obtain mn sn rsn where rt: "run_timer example_env (m, s, rs) [1, 2, 3] = (mn, sn, rsn)"
    by (metis prod.collapse)
  have cbn: "callback rsn = Callable 7"
    using run_timer_infinite [OF h1 rt] cb by simp
  from infinite_show_stops_once [OF h1 h2 h3 rt, of None None] cbn
  obtain m1 s1 rs1 where
    "\<not> stopped rsn"
    "stop example_env mn sn rsn None = (Inr (), m1, s1, rs1)"
    "stopped rs1" "rid rsn \<notin> running s1"
    "count_list (events m1) (CallbackFired 7) = Suc (count_list (events mn) (CallbackFired 7))"
    "stop example_env m1 s1 rs1 None = (Inr (), m1, s1, rs1)"
    by auto
  with p h1 h2 h3 rt show ?thesis by blast
qed

text \<open>
  The three branches of \<^verbatim>\<open>_run_next_step\<close> for a step at the last index: a positive
  loop count is decreased and the cursor is where it was; a negative one puts the cursor
  to 0; a loop count of zero stops the instance, and then no step is scheduled.
\<close>

lemma run_next_step_at_end:
  assumes "\<not> clock_time m < next_step_time rs"
    and "py_getitem (heap m) (rs_show_steps rs) (VInt (next_step_index rs)) = Inr step"
    and "py_items (heap m) step = Inr items"
    and "play_items env (heap m) rs (events m) items = (Inr (), evs)"
    and "next_step_index rs = int (rs_total_steps rs) - 1"
  shows "loops rs > 0 \<Longrightarrow>
           run_next_step env m s rs =
             schedule_next env (m\<lparr>events := evs\<rparr>) s (rs\<lparr>loops := loops rs - 1\<rparr>)"
    and "loops rs < 0 \<Longrightarrow>
           run_next_step env m s rs =
             schedule_next env (m\<lparr>events := evs\<rparr>) s (rs\<lparr>next_step_index := 0\<rparr>)"
    and "loops rs = 0 \<Longrightarrow> \<not> stopped rs \<Longrightarrow> rid rs \<in> running s \<Longrightarrow>
           (\<exists>m' s' rs'. run_next_step env m s rs = (Inr (VBool False), m', s', rs')
              \<and> stopped rs' \<and> rid rs \<notin> fst ` set (scheduled m'))"
  using assms
  by (auto simp: run_next_step_def stop_def Let_def split: callback.splits)

text \<open>
  C2 on the code: a show of two steps is played with one loop. After the first step the
  cursor is at the last index 1 with loop count 1. The step at the last index leaves the
  loop count 0 and the cursor at 1, not at 0, and schedules the next step.
\<close>

theorem finite_loop_repeats_last_step:
  "case play example_env (example_machine loop_store) loop_show
          (default_args\<lparr>arg_loops := 1\<rparr>) of
     (Inr (Some rs1), m1, s1) \<Rightarrow>
       next_step_index rs1 = 1 \<and> loops rs1 = 1 \<and> rs_total_steps rs1 = 2 \<and>
       (case fire example_env m1 s1 rs1 1 of
          (r2, m2, s2, rs2) \<Rightarrow>
            r2 = Inr (VFloat 1) \<and> next_step_index rs2 = 1 \<and> loops rs2 = 0 \<and>
            \<not> stopped rs2 \<and> scheduled m2 = [(rid rs2, 1)])
   | _ \<Rightarrow> False"
  by code_simp

section \<open>Loading\<close>

lemma load_steps_append:
  "load_steps env lst h t n pre = (Inr (Some t'), h') \<Longrightarrow>
   load_steps env lst h t n (pre @ rest) = load_steps env lst h' t' (n + length pre) rest"
proof (induction pre arbitrary: h t n)
  case Nil
  then show ?case by simp
next
  case (Cons step pre)
  then show ?case
    by (auto split: prod.splits sum.splits option.splits)
qed

text \<open>A step with an absolute time before the running total makes the round return \<^verbatim>\<open>False\<close>.\<close>

lemma load_step_out_of_order:
  assumes "py_contains_str h ''time'' step = Inr True"
    and "py_getitem h step (VStr ''time'') = Inr tv"
    and "string_to_secs env h tv = Inr step_time"
    and "starts_plus tv = Inr False"
    and "step_time < tot"
    and "\<not> (n = 0 \<and> 0 < step_time)"
  shows "load_step env lst h tot n step = (Inr None, h)"
  using assms by (auto simp: load_step_def)

lemma truthy_list:
  "a < length h \<Longrightarrow> h ! a = OList (x # xs) \<Longrightarrow> truthy (h @ h') (VRef a) = Inr True"
  by (simp add: truthy_def deref_def nth_append)

lemma root_steps_list:
  "a < length h \<Longrightarrow> h ! a = OList xs \<Longrightarrow> root_steps (h @ h') (VRef a) = (Inr xs, h @ h')"
  by (simp add: root_steps_def deref_def nth_append)

text \<open>
  C1, as amended. The root is a list; the steps before the step \<open>bad\<close> load, up to the
  running total \<open>tot\<close> and the store \<open>h1\<close>; \<open>bad\<close> has a time that is not relative and
  comes before \<open>tot\<close>. Then \<^verbatim>\<open>do_load_show\<close> returns \<^verbatim>\<open>False\<close>; the step count and
  the tokens of the show are as before, and its step sequence is the new list \<open>lst\<close>
  as the rounds for the steps before \<open>bad\<close> left it in \<open>h1\<close>.
\<close>

theorem do_load_show_out_of_order:
  assumes "a < length (heap m)"
    and "heap m ! a = OList (pre @ bad # rest)"
    and "alloc (heap m) (OList []) = (lst, h0)"
    and "load_steps env lst h0 0 0 pre = (Inr (Some tot), h1)"
    and "py_contains_str h1 ''time'' bad = Inr True"
    and "py_getitem h1 bad (VStr ''time'') = Inr tv"
    and "string_to_secs env h1 tv = Inr step_time"
    and "starts_plus tv = Inr False"
    and "step_time < tot"
    and "\<not> (pre = [] \<and> 0 < step_time)"
  shows "do_load_show env m s (VRef a) =
           (Inr (VBool False), m\<lparr>heap := h1\<rparr>, s\<lparr>show_steps := lst\<rparr>)"
proof -
  have h0: "h0 = heap m @ [OList []]" and lst: "lst = VRef (length (heap m))"
    using assms(3) by (auto simp: alloc_def)
  have ne: "pre @ bad # rest = hd (pre @ bad # rest) # tl (pre @ bad # rest)"
    by simp
  have t: "truthy h0 (VRef a) = Inr True"
    unfolding h0 using truthy_list [OF assms(1), of "hd (pre @ bad # rest)" "tl (pre @ bad # rest)"]
      assms(2) ne by simp
  have r: "root_steps h0 (VRef a) = (Inr (pre @ bad # rest), h0)"
    unfolding h0 by (rule root_steps_list [OF assms(1,2)])
  have b: "load_step env lst h1 tot (length pre) bad = (Inr None, h1)"
    using load_step_out_of_order [OF assms(5-9), of "length pre" lst] assms(10) by simp
  have l: "load_steps env lst h0 0 0 (pre @ bad # rest) = (Inr None, h1)"
    using load_steps_append [OF assms(4), of "bad # rest"] b by simp
  show ?thesis
    using assms(3) t r l
    by (simp add: do_load_show_def split: option.splits)
qed


theorem do_load_show_out_of_order_witness:
  "0 < length (heap (example_machine order_store))
   \<and> heap (example_machine order_store) ! 0 = OList ([VRef 1] @ VRef 4 # [])
   \<and> alloc (heap (example_machine order_store)) (OList []) = (VRef 5, order_store @ [OList []])
   \<and> load_steps example_env (VRef 5) (order_store @ [OList []]) 0 0 [VRef 1] =
       (Inr (Some 0),
        order_store @
          [OList [VRef 7], ODict [(VStr ''l1'', VRef 3)],
           ODict [(VStr ''time'', VFloat 0), (VStr ''lights'', VRef 6)]])
   \<and> do_load_show example_env (example_machine order_store) (new_show None) (VRef 0) =
       (Inr (VBool False),
        (example_machine order_store)
          \<lparr>heap := order_store @
             [OList [VRef 7], ODict [(VStr ''l1'', VRef 3)],
              ODict [(VStr ''time'', VFloat 0), (VStr ''lights'', VRef 6)]]\<rparr>,
        (new_show None)\<lparr>show_steps := VRef 5\<rparr>)"
proof -
  let ?h1 = "order_store @
          [OList [VRef 7], ODict [(VStr ''l1'', VRef 3)],
           ODict [(VStr ''time'', VFloat (0::int)), (VStr ''lights'', VRef 6)]]"
  have a1: "0 < length (heap (example_machine order_store))" by code_simp
  have a2: "heap (example_machine order_store) ! 0 = OList ([VRef 1] @ VRef 4 # [])" by code_simp
  have a3: "alloc (heap (example_machine order_store)) (OList []) =
              (VRef 5, order_store @ [OList []])"
    by code_simp
  have a4: "load_steps example_env (VRef 5) (order_store @ [OList []]) 0 0 [VRef 1] =
              (Inr (Some 0), ?h1)"
    by code_simp
  have a5: "py_contains_str ?h1 ''time'' (VRef 4) = Inr True" by code_simp
  have a6: "py_getitem ?h1 (VRef 4) (VStr ''time'') = Inr (VInt (- 1))" by code_simp
  have a7: "string_to_secs example_env ?h1 (VInt (- 1)) = Inr (- 1)" by code_simp
  have a8: "starts_plus (VInt (- 1) :: int val) = Inr False" by simp
  have a9: "(- 1 :: int) < 0" by simp
  have a10: "\<not> ([VRef 1 :: int val] = [] \<and> (0::int) < - 1)" by simp
  show ?thesis
    using a1 a2 a3 a4
      do_load_show_out_of_order [OF a1 a2 a3 a4 a5 a6 a7 a8 a9 a10, of "new_show None"]
    by simp
qed

text \<open>
  The claim as it was stated fails on \<^verbatim>\<open>[{time: 0, lights: {l1: {}}}, {time: -1}]\<close>:
  the load returns \<^verbatim>\<open>False\<close>, and the show's step sequence is a list that holds the
  step built from the first entry; the step count was never set.
\<close>

theorem do_load_show_partial_counterexample:
  "(case do_load_show example_env (example_machine order_store) (new_show None) (VRef 0) of
      (r, m', s') \<Rightarrow>
        r = Inr (VBool False)
      \<and> show_steps s' = VRef 5
      \<and> heap m' ! 5 = OList [VRef 7]
      \<and> heap m' ! 7 = ODict [(VStr ''time'', VFloat 0), (VStr ''lights'', VRef 6)]
      \<and> heap m' ! 6 = ODict [(VStr ''l1'', VRef 3)]
      \<and> py_len (heap m') (show_steps s') = Inr 1
      \<and> total_steps s' = None)"
  by code_simp

text \<open>
  A root that is a dict: \<^verbatim>\<open>list(data)\<close> is the list of its keys, so the first step is
  the first key, which is no dict, and the first round of the loop raises
  \<^verbatim>\<open>TypeError\<close>.
\<close>

lemma load_step_scalar:
  "hashable k \<Longrightarrow> fst (load_step env lst h t n k) = Inl TypeError"
  by (cases k)
     (auto simp: load_step_def py_contains_str_def py_setitem_def py_getitem_def
       split: sum.splits)

text \<open>
  C7 on the code. Loading a root that is a map with at least one entry raises
  \<^verbatim>\<open>TypeError\<close>; it is not loaded as a list of one step.
\<close>

theorem do_load_show_dict_root:
  assumes "a < length (heap m)"
    and "heap m ! a = ODict ((k, v) # kvs)"
    and "hashable k"
  shows "fst (do_load_show env m s (VRef a)) = Inl TypeError"
proof -
  have t: "truthy (heap m @ [OList []]) (VRef a) = Inr True"
    using assms(1,2) by (simp add: truthy_def deref_def nth_append)
  have r: "root_steps (heap m @ [OList []]) (VRef a) =
             (Inr (k # map fst kvs), heap m @ [OList [], OList (k # map fst kvs)])"
    using assms(1,2) by (simp add: root_steps_def deref_def nth_append alloc_def)
  obtain e h' where
    l: "load_step env (VRef (length (heap m))) (heap m @ [OList [], OList (k # map fst kvs)])
          0 0 k = (Inl TypeError, h')"
    using load_step_scalar [OF assms(3)] by (metis prod.collapse)
  show ?thesis
    using t r l by (simp add: do_load_show_def alloc_def split: option.splits)
qed

text \<open>
  The map \<^verbatim>\<open>{time: 0}\<close> as the root raises; the list of that one map loads as a show
  of one step.
\<close>

theorem do_load_show_dict_root_witness:
  "0 < length (heap (example_machine map_store))
   \<and> heap (example_machine map_store) ! 0 = ODict ((VStr ''time'', VInt 0) # [])
   \<and> hashable (VStr ''time'' :: int val)
   \<and> fst (do_load_show example_env (example_machine map_store) (new_show None) (VRef 0)) =
       Inl TypeError
   \<and> (case do_load_show example_env (example_machine map_store) (new_show None) (VRef 1) of
        (r, m', s') \<Rightarrow> r = Inr VNone \<and> total_steps s' = Some 1)"
proof -
  have a1: "0 < length (heap (example_machine map_store))" by code_simp
  have a2: "heap (example_machine map_store) ! 0 = ODict ((VStr ''time'', VInt 0) # [])"
    by code_simp
  have a3: "hashable (VStr ''time'' :: int val)" by simp
  have a4: "(case do_load_show example_env (example_machine map_store) (new_show None) (VRef 1) of
        (r, m', s') \<Rightarrow> r = Inr VNone \<and> total_steps s' = Some 1)"
    by code_simp
  show ?thesis
    using a1 a2 a3 a4 do_load_show_dict_root [OF a1 a2 a3, of example_env "new_show None"]
    by blast
qed

text \<open>
  A root that is neither a list nor a dict raises the \<^verbatim>\<open>ValueError\<close> of an invalid
  show, provided the data is not replaced by the show file: it is not empty, or the show
  has no file.
\<close>

lemma do_load_show_scalar_root:
  assumes "\<And>a. data \<noteq> VRef a"
    and "show_file s = None \<or> show_file s = Some [] \<or> truthy (heap m @ [OList []]) data = Inr True"
  shows "fst (do_load_show env m s data) = Inl (ValueError InvalidShowConfig)"
proof -
  obtain b where t: "truthy (heap m @ [OList []]) data = Inr b"
    using assms(1) by (cases data) (auto simp: truthy_def)
  have r: "root_steps (heap m @ [OList []]) data =
             (Inl (ValueError InvalidShowConfig), heap m @ [OList []])"
    using assms(1) by (cases data) (auto simp: root_steps_def)
  show ?thesis
    using t r assms(2)
    by (auto simp: do_load_show_def alloc_def split: option.splits)
qed

section \<open>A corrupted sub-frame followed by a valid one\<close>





text \<open>In a configuration response a wrong CRC ends the handling of the whole message.\<close>

lemma get_gen2_cfg_resp_bad:
  "6 < length msg \<Longrightarrow> msg ! 6 \<noteq> calc_crc8_part_msg c msg 0 6 \<Longrightarrow>
   get_gen2_cfg_resp c p msg = Inr (p\<lparr>badCRC := badCRC p + 1, read_input_msg := [EOM_CMD c]\<rparr>)"
  by (simp add: get_gen2_cfg_resp_def get_gen2_cfg_loop.simps)





end
